theory Spec2Isabelle
  imports Complex_Main "HOL-Library.Sublist"
begin

section \<open>Python strings\<close>

text \<open>
  A Python \<open>str\<close> is a sequence of Unicode code points, and \<open>len\<close> counts code
  points. A code point is modelled as a natural number and a string as a list of them.
  String literals of the source are written with \<open>lit\<close>, which maps each (ASCII)
  character of an Isabelle string to its code point.
\<close>

type_synonym pystr = "nat list"

definition lit :: "string \<Rightarrow> pystr" where
  "lit s = map of_char s"

text \<open>
  The characters that \<open>str.strip()\<close> and \<open>str.split()\<close> treat as whitespace
  (\<open>str.isspace\<close> of a single character).
\<close>

definition isspace :: "nat \<Rightarrow> bool" where
  "isspace c \<longleftrightarrow>
     (0x09 \<le> c \<and> c \<le> 0x0D) \<or> (0x1C \<le> c \<and> c \<le> 0x20) \<or> c = 0x85 \<or> c = 0xA0 \<or>
     c = 0x1680 \<or> (0x2000 \<le> c \<and> c \<le> 0x200A) \<or> c = 0x2028 \<or> c = 0x2029 \<or>
     c = 0x202F \<or> c = 0x205F \<or> c = 0x3000"

definition lstrip :: "pystr \<Rightarrow> pystr" where
  "lstrip s = dropWhile isspace s"

definition rstrip :: "pystr \<Rightarrow> pystr" where
  "rstrip s = rev (dropWhile isspace (rev s))"

text \<open>\<open>s.strip()\<close>\<close>

definition strip :: "pystr \<Rightarrow> pystr" where
  "strip s = rstrip (lstrip s)"

text \<open>\<open>sub in s\<close>\<close>

definition contains :: "pystr \<Rightarrow> pystr \<Rightarrow> bool" where
  "contains sub s = sublist sub s"

text \<open>\<open>s.find(sub)\<close>, with \<open>None\<close> for Python's \<open>-1\<close>.\<close>

fun py_find :: "pystr \<Rightarrow> pystr \<Rightarrow> nat option" where
  "py_find sub [] = (if sub = [] then Some 0 else None)"
| "py_find sub (c # cs) =
     (if prefix sub (c # cs) then Some 0 else map_option Suc (py_find sub cs))"

text \<open>
  \<open>s.split(sep)\<close> for a non-empty separator: the pieces between the successive
  non-overlapping occurrences of \<open>sep\<close>, found from the left. Python raises
  \<open>ValueError\<close> for an empty separator; both call sites pass a non-empty literal,
  and the model returns \<open>[s]\<close> there.
\<close>

function py_split :: "pystr \<Rightarrow> pystr \<Rightarrow> pystr list" where
  "py_split sep s =
     (if sep = [] then [s]
      else case py_find sep s of
             None \<Rightarrow> [s]
           | Some i \<Rightarrow> take i s # py_split sep (drop (i + length sep) s))"
  by pat_completeness auto
termination
proof (relation "measure (\<lambda>(sep, s). length s)")
  show "wf (measure (\<lambda>(sep :: pystr, s :: pystr). length s))" by simp
next
  fix sep s :: pystr and i
  assume sep: "sep \<noteq> []" and "py_find sep s = Some i"
  then have "s \<noteq> []" by (cases s) auto
  then show "((sep, drop (i + length sep) s), (sep, s)) \<in> measure (\<lambda>(sep, s). length s)"
    using sep by simp
qed

declare py_split.simps [simp del]

text \<open>
  \<open>s.replace(old, new)\<close>: every non-overlapping occurrence of \<open>old\<close>, found from the
  left, is replaced by \<open>new\<close>, in a single pass. For an empty \<open>old\<close> Python puts
  \<open>new\<close> before every character and at the end.
\<close>

function py_replace :: "pystr \<Rightarrow> pystr \<Rightarrow> pystr \<Rightarrow> pystr" where
  "py_replace old new s =
     (if old = [] then new @ concat (map (\<lambda>c. c # new) s)
      else case py_find old s of
             None \<Rightarrow> s
           | Some i \<Rightarrow> take i s @ new @ py_replace old new (drop (i + length old) s))"
  by pat_completeness auto
termination
proof (relation "measure (\<lambda>(old, new, s). length s)")
  show "wf (measure (\<lambda>(old :: pystr, new :: pystr, s :: pystr). length s))" by simp
next
  fix old new s :: pystr and i
  assume old: "old \<noteq> []" and "py_find old s = Some i"
  then have "s \<noteq> []" by (cases s) auto
  then show "((old, new, drop (i + length old) s), (old, new, s))
      \<in> measure (\<lambda>(old, new, s). length s)"
    using old by simp
qed

declare py_replace.simps [simp del]

text \<open>\<open>s.split()\<close>: the maximal runs of non-whitespace characters.\<close>

function split_ws :: "pystr \<Rightarrow> pystr list" where
  "split_ws s =
     (case dropWhile isspace s of
        [] \<Rightarrow> []
      | c # cs \<Rightarrow> takeWhile (\<lambda>x. \<not> isspace x) (c # cs)
                  # split_ws (dropWhile (\<lambda>x. \<not> isspace x) (c # cs)))"
  by pat_completeness auto
termination
proof (relation "measure length")
  show "wf (measure length)" by simp
next
  fix s :: pystr and c cs
  assume a: "dropWhile isspace s = c # cs"
  then have nsp: "\<not> isspace c"
    using hd_dropWhile [of isspace s] by auto
  have "length (dropWhile (\<lambda>x. \<not> isspace x) (c # cs)) \<le> length cs"
    using nsp by (simp add: length_dropWhile_le)
  also have "length cs < length (dropWhile isspace s)"
    using a by simp
  also have "\<dots> \<le> length s"
    by (rule length_dropWhile_le)
  finally show "(dropWhile (\<lambda>x. \<not> isspace x) (c # cs), s) \<in> measure length"
    by simp
qed

declare split_ws.simps [simp del]

text \<open>\<open>sep.join(parts)\<close>\<close>

fun py_join :: "pystr \<Rightarrow> pystr list \<Rightarrow> pystr" where
  "py_join sep [] = []"
| "py_join sep [x] = x"
| "py_join sep (x # y # ys) = x @ sep @ py_join sep (y # ys)"

text \<open>The slice \<open>xs[-n:]\<close> for a positive \<open>n\<close>: the last \<open>n\<close> elements, or all of them.\<close>

definition last_n :: "nat \<Rightarrow> 'a list \<Rightarrow> 'a list" where
  "last_n n xs = drop (length xs - n) xs"

text \<open>
  \<open>s.lower()\<close> on the ASCII letters. Other code points are left as they are: Python
  lowers some of them too, but never to one of the ASCII letters of \<open>true\<close>, so the
  one comparison the source makes with the result is not affected.
\<close>

definition lower :: "pystr \<Rightarrow> pystr" where
  "lower s = map (\<lambda>c. if 0x41 \<le> c \<and> c \<le> 0x5A then c + 0x20 else c) s"

section \<open>Chat turns\<close>

text \<open>
  A chat turn is a Python dict from field names to text, kept as the list of its items
  in insertion order. \<open>d.get(key, default)\<close> returns the value stored under the key, or
  the default when the key is absent.
\<close>

type_synonym pydict = "(pystr \<times> pystr) list"

definition dict_get :: "pydict \<Rightarrow> pystr \<Rightarrow> pystr \<Rightarrow> pystr" where
  "dict_get d k dflt = (case map_of d k of None \<Rightarrow> dflt | Some v \<Rightarrow> v)"

text \<open>Equality of two dicts in Python: the same keys with the same values, in any order.\<close>

definition dict_eq :: "pydict \<Rightarrow> pydict \<Rightarrow> bool" where
  "dict_eq d e \<longleftrightarrow> map_of d = map_of e"

text \<open>
  Truth value of an optional string or list argument (\<open>if context:\<close>,
  \<open>if chat_history:\<close>): \<open>None\<close> and the empty value are false.
\<close>

definition truthy :: "'a list option \<Rightarrow> bool" where
  "truthy x = (case x of None \<Rightarrow> False | Some v \<Rightarrow> v \<noteq> [])"

section \<open>The local prompt builder\<close>

text \<open>The body of the loop over the history in \<open>_build_local_prompt\<close>.\<close>

definition render_turn :: "pydict \<Rightarrow> pystr" where
  "render_turn msg =
     (let role = dict_get msg (lit ''role'') (lit ''user'');
          content = dict_get msg (lit ''content'') []
      in if role = lit ''user'' then lit ''Question: '' @ content
         else lit ''Answer: '' @ content)"

text \<open>The list \<open>prompt_parts\<close> when \<open>_build_local_prompt\<close> reaches its return.\<close>

definition prompt_parts :: "pystr \<Rightarrow> pystr option \<Rightarrow> pydict list option \<Rightarrow> pystr list" where
  "prompt_parts query context chat_history =
     (if truthy context
      then [lit ''Context from college documents:'', the context, []] else [])
     @ (if truthy chat_history then map render_turn (last_n 3 (the chat_history)) else [])
     @ [lit ''Question: '' @ query, lit ''Answer:'']"

definition build_local_prompt :: "pystr \<Rightarrow> pystr option \<Rightarrow> pydict list option \<Rightarrow> pystr" where
  "build_local_prompt query context chat_history =
     py_join (lit ''\<newline>'') (prompt_parts query context chat_history)"

section \<open>The response cleaner\<close>

definition clean_response :: "pystr \<Rightarrow> pystr" where
  "clean_response response =
     (let response1 = (if contains (lit ''Question:'') response
                       then hd (py_split (lit ''Question:'') response) else response);
          response2 = strip (py_replace (lit ''Answer:'') [] response1);
          paragraphs = py_split (lit ''\<newline>\<newline>'') response2;
          response3 = (if length paragraphs > 1 \<and> length response2 > 500
                       then hd paragraphs else response2)
      in strip response3)"

section \<open>Errors, backends and the service\<close>

text \<open>
  An exception is a value. \<open>ValueError\<close> is raised by the source itself,
  \<open>IndexError\<close> by an index into an empty list, \<open>UnicodeEncodeError\<close> by a
  \<open>print\<close> whose text the standard output cannot encode, and \<open>LibraryError\<close>
  stands for any exception raised inside a library call (the remote client, the model
  loader, the text-generation pipeline). Each carries its message.
\<close>

datatype error = ValueError pystr | IndexError | UnicodeEncodeError pystr | LibraryError pystr

text \<open>\<open>str(e)\<close>, as an f-string formats an exception.\<close>

fun error_str :: "error \<Rightarrow> pystr" where
  "error_str (ValueError message) = message"
| "error_str IndexError = lit ''list index out of range''"
| "error_str (UnicodeEncodeError message) = message"
| "error_str (LibraryError message) = message"

text \<open>
  The keyword arguments of \<open>client.chat.completions.create\<close>, apart from \<open>stream\<close>.
  The temperature \<open>0.7\<close> is kept as the fraction \<open>7 / 10\<close>.
\<close>

record request =
  model :: pystr
  messages :: "pydict list"
  temperature :: rat
  max_tokens :: nat

text \<open>
  The remote client is a parameter: the two modes of \<open>client.chat.completions.create\<close>.
  Without \<open>stream\<close> the call raises or returns a completion, given here by the
  \<open>message.content\<close> of each of its \<open>choices\<close>. With \<open>stream=True\<close> it gives a
  finite sequence of chunks, each given by the \<open>delta.content\<close> (which may be
  \<open>None\<close>) of each of its \<open>choices\<close>, and possibly an exception that ends the
  sequence (a failure of the call itself is an exception before the first chunk).
\<close>

record groq_client =
  create :: "request \<Rightarrow> error + pystr list"
  create_stream :: "request \<Rightarrow> pystr option list list \<times> error option"

text \<open>
  The text-generation pipeline of the local backend is a parameter as well: called on a
  prompt (with the fixed sampling arguments of the source) it raises or returns the
  \<open>generated_text\<close> of each returned sequence.
\<close>

type_synonym pipeline = "pystr \<Rightarrow> error + pystr list"

text \<open>
  \<open>__init__\<close> sets \<open>use_local_model\<close> and then the attributes of exactly one
  backend, so an instance has one of two shapes.
\<close>

datatype LLMService =
    GroqService groq_client pystr
  | LocalService pystr pipeline

fun use_local_model :: "LLMService \<Rightarrow> bool" where
  "use_local_model (GroqService client model_name) = False"
| "use_local_model (LocalService device generator) = True"

section \<open>The remote path\<close>

definition generate_groq_system_prompt :: pystr where
  "generate_groq_system_prompt = lit (
        ''\<newline>'' @
        ''            You are RizviGPT, an AI assistant with deep knowledge about the Rizvi College Of Engineering.\<newline>'' @
        ''            You have access to college documents, course materials, policies, and procedures.\<newline>'' @
        ''            Answer questions accurately based on the provided context. If you don't have enough information, say so.\<newline>'' @
        ''            Be helpful, concise, and student-friendly. Be very flexible and elaborate on your answers and do not just retrieve data from the context.\<newline>'' @
        ''        '')"

definition stream_groq_system_prompt :: pystr where
  "stream_groq_system_prompt = lit (
        ''\<newline>'' @
        ''            You are RizviGPT, an AI assistant with deep knowledge about the Rizvi College Of Engineering.\<newline>'' @
        ''            You have access to college documents, course materials, policies, and procedures.\<newline>'' @
        ''            Answer questions accurately based on the provided context. If you don't have enough information, say so.\<newline>'' @
        ''            Be helpful, concise, and student-friendly.\<newline>'' @
        ''        '')"

text \<open>
  The list \<open>messages\<close> that \<open>_generate_groq\<close> and \<open>_stream_groq\<close> build, each from
  its own persona text.
\<close>

definition build_messages :: "pystr \<Rightarrow> pystr \<Rightarrow> pystr option \<Rightarrow> pydict list option \<Rightarrow> pydict list" where
  "build_messages persona query context chat_history =
     (let system_prompt =
            (if truthy context
             then persona @ lit ''\<newline>\<newline>Relevant context from college documents:\<newline>'' @ the context
             else persona)
      in [[(lit ''role'', lit ''system''), (lit ''content'', system_prompt)]]
         @ (if truthy chat_history then last_n 5 (the chat_history) else [])
         @ [[(lit ''role'', lit ''user''), (lit ''content'', query)]])"

definition generate_groq_request :: "pystr \<Rightarrow> pystr \<Rightarrow> pystr option \<Rightarrow> pydict list option \<Rightarrow> request" where
  "generate_groq_request model_name query context chat_history =
     \<lparr>model = model_name,
      messages = build_messages generate_groq_system_prompt query context chat_history,
      temperature = 7 / 10, max_tokens = 1024\<rparr>"

definition stream_groq_request :: "pystr \<Rightarrow> pystr \<Rightarrow> pystr option \<Rightarrow> pydict list option \<Rightarrow> request" where
  "stream_groq_request model_name query context chat_history =
     \<lparr>model = model_name,
      messages = build_messages stream_groq_system_prompt query context chat_history,
      temperature = 7 / 10, max_tokens = 1024\<rparr>"

text \<open>\<open>response.choices[0].message.content\<close> of the completion, or the exception.\<close>

definition generate_groq ::
  "groq_client \<Rightarrow> pystr \<Rightarrow> pystr \<Rightarrow> pystr option \<Rightarrow> pydict list option \<Rightarrow> error + pystr" where
  "generate_groq client model_name query context chat_history =
     (case create client (generate_groq_request model_name query context chat_history) of
        Inl e \<Rightarrow> Inl e
      | Inr choices \<Rightarrow> (case choices of [] \<Rightarrow> Inl IndexError | content # rest \<Rightarrow> Inr content))"

section \<open>The local path\<close>

definition generate_local ::
  "pipeline \<Rightarrow> pystr \<Rightarrow> pystr option \<Rightarrow> pydict list option \<Rightarrow> error + pystr" where
  "generate_local generator query context chat_history =
     (let prompt = build_local_prompt query context chat_history
      in case generator prompt of
           Inl e \<Rightarrow> Inl e
         | Inr outputs \<Rightarrow>
             (case outputs of
                [] \<Rightarrow> Inl IndexError
              | generated_text # rest \<Rightarrow>
                  Inr (clean_response (strip (drop (length prompt) generated_text)))))"

definition generate_response ::
  "LLMService \<Rightarrow> pystr \<Rightarrow> pystr option \<Rightarrow> pydict list option \<Rightarrow> error + pystr" where
  "generate_response self query context chat_history =
     (case self of
        LocalService device generator \<Rightarrow> generate_local generator query context chat_history
      | GroqService client model_name \<Rightarrow> generate_groq client model_name query context chat_history)"

section \<open>Streaming\<close>

text \<open>
  A Python generator is observed as the fragments it yields, in order, and the exception
  that ends it, if any.
\<close>

type_synonym fragments = "pystr list \<times> error option"

text \<open>
  The loop of \<open>_stream_groq\<close> over the chunks: \<open>chunk.choices[0].delta.content\<close> is
  yielded when it is neither \<open>None\<close> nor empty.
\<close>

fun stream_chunks :: "pystr option list list \<Rightarrow> error option \<Rightarrow> fragments" where
  "stream_chunks [] failure = ([], failure)"
| "stream_chunks (chunk # chunks) failure =
     (case chunk of
        [] \<Rightarrow> ([], Some IndexError)
      | content # rest \<Rightarrow>
          (let (yielded, e) = stream_chunks chunks failure
           in (if truthy content then the content # yielded else yielded, e)))"

definition stream_groq ::
  "groq_client \<Rightarrow> pystr \<Rightarrow> pystr \<Rightarrow> pystr option \<Rightarrow> pydict list option \<Rightarrow> fragments" where
  "stream_groq client model_name query context chat_history =
     (case create_stream client (stream_groq_request model_name query context chat_history) of
        (chunks, failure) \<Rightarrow> stream_chunks chunks failure)"

text \<open>The loop of the local branch: one fragment per word.\<close>

definition word_fragments :: "pystr list \<Rightarrow> pystr list" where
  "word_fragments words =
     map (\<lambda>(i, word). word @ (if i < length words - 1 then lit '' '' else []))
       (enumerate 0 words)"

definition generate_streaming_response ::
  "LLMService \<Rightarrow> pystr \<Rightarrow> pystr option \<Rightarrow> pydict list option \<Rightarrow> fragments" where
  "generate_streaming_response self query context chat_history =
     (case self of
        LocalService device generator \<Rightarrow>
          (case generate_local generator query context chat_history of
             Inl e \<Rightarrow> ([], Some e)
           | Inr response \<Rightarrow> (word_fragments (split_ws response), None))
      | GroqService client model_name \<Rightarrow> stream_groq client model_name query context chat_history)"

section \<open>The factory\<close>

text \<open>
  What \<open>create_llm_service\<close> reads from and writes to its surroundings: the environment
  variables, the file system, the accelerator, the two library constructors, each of
  which raises or returns its object, and the standard output. \<open>load_pipeline path
  device\<close> stands for loading the tokenizer and the model from the path and building the
  pipeline on the device. \<open>print\<close> writes a line and returns \<open>None\<close>, or gives the
  exception it raises (a text that the output cannot encode).
\<close>

record environment =
  getenv :: "pystr \<rightharpoonup> pystr"
  path_exists :: "pystr \<Rightarrow> bool"
  cuda_is_available :: bool
  Groq :: "pystr option \<Rightarrow> error + groq_client"
  load_pipeline :: "pystr \<Rightarrow> pystr \<Rightarrow> error + pipeline"
  print :: "pystr \<Rightarrow> error option"

text \<open>\<open>os.getenv(key, default)\<close>\<close>

definition os_getenv :: "environment \<Rightarrow> pystr \<Rightarrow> pystr \<Rightarrow> pystr" where
  "os_getenv env key dflt = (case getenv env key of None \<Rightarrow> dflt | Some v \<Rightarrow> v)"

text \<open>A \<open>print\<close> statement followed by the rest of the block.\<close>

definition print_then :: "environment \<Rightarrow> pystr \<Rightarrow> error + 'a \<Rightarrow> error + 'a" where
  "print_then env line rest = (case print env line of Some e \<Rightarrow> Inl e | None \<Rightarrow> rest)"

text \<open>The check mark \<open>U+2713\<close> that starts two of the printed lines.\<close>

definition check_mark :: nat where
  "check_mark = 0x2713"

definition init_groq :: "environment \<Rightarrow> error + LLMService" where
  "init_groq env =
     (case Groq env (getenv env (lit ''GROQ_API_KEY'')) of
        Inl e \<Rightarrow> Inl e
      | Inr client \<Rightarrow>
          print_then env (check_mark # lit '' Using Groq API'')
            (Inr (GroqService client (lit ''llama-3.1-8b-instant''))))"

definition init_local_model :: "environment \<Rightarrow> pystr option \<Rightarrow> error + LLMService" where
  "init_local_model env model_path0 =
     (let model_path =
            (if \<not> truthy model_path0
             then os_getenv env (lit ''LOCAL_MODEL_PATH'') (lit ''./trained_model/final_model'')
             else the model_path0)
      in if \<not> path_exists env model_path
         then Inl (ValueError (lit ''Local model not found at '' @ model_path))
         else print_then env (lit ''Loading local model from '' @ model_path @ lit ''...'')
                (let device = (if cuda_is_available env then lit ''cuda'' else lit ''cpu'')
                 in case load_pipeline env model_path device of
                      Inl e \<Rightarrow> Inl e
                    | Inr generator \<Rightarrow>
                        print_then env (check_mark # lit '' Local model loaded on '' @ device)
                          (Inr (LocalService device generator))))"

text \<open>\<open>LLMService(use_local_model, local_model_path)\<close>\<close>

definition new_LLMService :: "environment \<Rightarrow> bool \<Rightarrow> pystr option \<Rightarrow> error + LLMService" where
  "new_LLMService env use_local local_model_path =
     (if use_local then init_local_model env local_model_path else init_groq env)"

text \<open>
  The handler of \<open>create_llm_service\<close> prints two lines and then makes the fallback
  call; all three stand outside the \<open>try\<close>, so what they raise is not caught.
\<close>

definition create_llm_service :: "environment \<Rightarrow> error + LLMService" where
  "create_llm_service env =
     (let use_local = (lower (os_getenv env (lit ''USE_LOCAL_MODEL'') (lit ''false'')) = lit ''true'');
          local_model_path = os_getenv env (lit ''LOCAL_MODEL_PATH'') (lit ''./trained_model/final_model'')
      in case new_LLMService env use_local (if use_local then Some local_model_path else None) of
           Inr service \<Rightarrow> Inr service
         | Inl e \<Rightarrow>
             print_then env (lit ''Error initializing local model: '' @ error_str e)
               (print_then env (lit ''Falling back to Groq...'')
                  (new_LLMService env False None)))"

section \<open>The terms of the specification\<close>

text \<open>
  The configuration asks for the local model, and the path that \<open>_init_local_model\<close>
  checks: \<open>create_llm_service\<close> passes the value of \<open>LOCAL_MODEL_PATH\<close> (or the
  default), and an empty value is looked up again to the same result.
\<close>

definition requests_local :: "environment \<Rightarrow> bool" where
  "requests_local env \<longleftrightarrow>
     lower (os_getenv env (lit ''USE_LOCAL_MODEL'') (lit ''false'')) = lit ''true''"

definition configured_path :: "environment \<Rightarrow> pystr" where
  "configured_path env =
     os_getenv env (lit ''LOCAL_MODEL_PATH'') (lit ''./trained_model/final_model'')"

text \<open>The four steps of the cleaner, in the words of the specification.\<close>

definition truncate_at_first :: "pystr \<Rightarrow> pystr \<Rightarrow> pystr" where
  "truncate_at_first sub s = (case py_find sub s of None \<Rightarrow> s | Some i \<Rightarrow> take i s)"

definition spec_step1 :: "pystr \<Rightarrow> pystr" where
  "spec_step1 s =
     (if contains (lit ''Question:'') s then truncate_at_first (lit ''Question:'') s else s)"

text \<open>
  Removing every occurrence of a label leaves the pieces of the text between the
  occurrences, put together.
\<close>

definition remove_all :: "pystr \<Rightarrow> pystr \<Rightarrow> pystr" where
  "remove_all sub s = concat (py_split sub s)"

definition spec_step2 :: "pystr \<Rightarrow> pystr" where
  "spec_step2 s = remove_all (lit ''Answer:'') s"

definition spec_step2_trimmed :: "pystr \<Rightarrow> pystr" where
  "spec_step2_trimmed s = strip (remove_all (lit ''Answer:'') s)"

definition spec_step3 :: "pystr \<Rightarrow> pystr" where
  "spec_step3 s =
     (if contains (lit ''\<newline>\<newline>'') s \<and> 500 < length s
      then truncate_at_first (lit ''\<newline>\<newline>'') s else s)"

definition spec_clean_response :: "pystr \<Rightarrow> pystr" where
  "spec_clean_response s = strip (spec_step3 (spec_step2 (spec_step1 s)))"

definition spec_clean_response_amended :: "pystr \<Rightarrow> pystr" where
  "spec_clean_response_amended s = strip (spec_step3 (spec_step2_trimmed (spec_step1 s)))"


section \<open>Backends, environments and texts of the examples\<close>

text \<open>
  Histories for the examples: six turns with alternating roles; two turns; four turns of
  which the third has no role and the fourth no content.
\<close>

definition six_turns :: "pydict list" where
  "six_turns =
     [[(lit ''role'', lit ''user''), (lit ''content'', lit ''a'')],
      [(lit ''role'', lit ''assistant''), (lit ''content'', lit ''b'')],
      [(lit ''role'', lit ''user''), (lit ''content'', lit ''c'')],
      [(lit ''role'', lit ''assistant''), (lit ''content'', lit ''d'')],
      [(lit ''role'', lit ''user''), (lit ''content'', lit ''e'')],
      [(lit ''role'', lit ''assistant''), (lit ''content'', lit ''f'')]]"

definition two_turns :: "pydict list" where
  "two_turns =
     [[(lit ''role'', lit ''user''), (lit ''content'', lit ''Hi'')],
      [(lit ''role'', lit ''assistant''), (lit ''content'', lit ''Hello!'')]]"

definition four_turns :: "pydict list" where
  "four_turns =
     [[(lit ''role'', lit ''user''), (lit ''content'', lit ''Hi'')],
      [(lit ''role'', lit ''assistant''), (lit ''content'', lit ''Hello!'')],
      [(lit ''content'', lit ''Where is it?'')],
      [(lit ''role'', lit ''system'')]]"

text \<open>A remote client that answers every synchronous call with the same choices.\<close>

definition fixed_client :: "pystr list \<Rightarrow> groq_client" where
  "fixed_client choices = \<lparr>create = (\<lambda>r. Inr choices), create_stream = (\<lambda>r. ([], None))\<rparr>"

text \<open>
  A pipeline that returns the prompt followed by a fixed continuation, as a
  text-generation pipeline echoes its prompt.
\<close>

definition echo_pipeline :: "pystr \<Rightarrow> pipeline" where
  "echo_pipeline continuation = (\<lambda>prompt. Inr [prompt @ continuation])"

text \<open>
  The constructor of the remote client as the library has it: it raises when no API key
  is given, and returns a client otherwise.
\<close>

definition silent_client :: groq_client where
  "silent_client = \<lparr>create = (\<lambda>r. Inr []), create_stream = (\<lambda>r. ([], None))\<rparr>"

definition Groq_needs_key :: "pystr option \<Rightarrow> error + groq_client" where
  "Groq_needs_key api_key =
     (case api_key of
        None \<Rightarrow> Inl (LibraryError (lit ''The api_key client option must be set''))
      | Some k \<Rightarrow> Inr silent_client)"

text \<open>
  Two environments that ask for the local model where there is none on disk: one
  without the API key of the remote backend, one with it.
\<close>

definition env_without_key :: environment where
  "env_without_key =
     \<lparr>getenv = [lit ''USE_LOCAL_MODEL'' \<mapsto> lit ''True''],
      path_exists = (\<lambda>p. False),
      cuda_is_available = False,
      Groq = Groq_needs_key,
      load_pipeline = (\<lambda>p d. Inl (LibraryError [])),
      print = (\<lambda>line. None)\<rparr>"

definition env_with_key :: environment where
  "env_with_key =
     \<lparr>getenv = [lit ''USE_LOCAL_MODEL'' \<mapsto> lit ''True'', lit ''GROQ_API_KEY'' \<mapsto> lit ''k''],
      path_exists = (\<lambda>p. False),
      cuda_is_available = False,
      Groq = Groq_needs_key,
      load_pipeline = (\<lambda>p d. Inl (LibraryError [])),
      print = (\<lambda>line. None)\<rparr>"

text \<open>
  A standard output that encodes ASCII only, and an environment with the API key, no
  local model on disk and that output.
\<close>

definition ascii_print :: "pystr \<Rightarrow> error option" where
  "ascii_print line =
     (if list_all (\<lambda>c. c < 128) line then None
      else Some (UnicodeEncodeError (lit ''ordinal not in range(128)'')))"

definition env_ascii_stdout :: environment where
  "env_ascii_stdout =
     \<lparr>getenv = [lit ''USE_LOCAL_MODEL'' \<mapsto> lit ''True'', lit ''GROQ_API_KEY'' \<mapsto> lit ''k''],
      path_exists = (\<lambda>p. False),
      cuda_is_available = False,
      Groq = Groq_needs_key,
      load_pipeline = (\<lambda>p d. Inl (LibraryError [])),
      print = ascii_print\<rparr>"

text \<open>
  A text of 600 characters in two paragraphs that ends in spaces, and one without
  surrounding whitespace.
\<close>

definition padded_two_paragraphs :: pystr where
  "padded_two_paragraphs = lit ''x\<newline>\<newline>y'' @ replicate 596 (of_char CHR '' '')"

definition long_two_paragraphs :: pystr where
  "long_two_paragraphs =
     replicate 300 (of_char CHR ''a'') @ lit ''\<newline>\<newline>'' @ replicate 298 (of_char CHR ''b'')"


section \<open>Facts about the string operations\<close>

lemma lit_simps: "lit [] = []" "lit (c # cs) = of_char c # lit cs"
  by (simp_all add: lit_def)

lemma last_n_length: "length (last_n n xs) = min n (length xs)"
  by (simp add: last_n_def)

lemma last_n_suffix: "suffix (last_n n xs) xs"
  by (simp add: last_n_def suffix_drop)

lemma py_join_snoc2: "\<exists>pre. py_join sep (xs @ [a, b]) = pre @ a @ sep @ b"
proof (induction xs rule: py_join.induct[of _ sep])
  case (1 sep)
  then show ?case by simp
next
  case (2 sep x)
  then show ?case by simp
next
  case (3 sep x y ys)
  then show ?case by (simp; metis append.assoc)
qed

lemma render_turn_cong: "dict_eq d e \<Longrightarrow> render_turn d = render_turn e"
  by (simp add: dict_eq_def render_turn_def dict_get_def)

lemma map_render_cong: "list_all2 dict_eq h h' \<Longrightarrow> map render_turn h = map render_turn h'"
  by (induction h h' rule: list_all2_induct) (auto dest: render_turn_cong)

lemma list_all2_last_n: "list_all2 P xs ys \<Longrightarrow> list_all2 P (last_n n xs) (last_n n ys)"
  using list_all2_lengthD[of P xs ys] by (auto simp: last_n_def intro: list_all2_dropI)

lemma word_fragments_eq:
  "word_fragments ws = (if ws = [] then [] else map (\<lambda>w. w @ lit '' '') (butlast ws) @ [last ws])"
proof (cases ws rule: rev_cases)
  case Nil
  then show ?thesis by (simp add: word_fragments_def)
next
  case (snoc xs x)
  have "map (\<lambda>(i, word). word @ (if i < length xs then lit '' '' else [])) (enumerate 0 xs)
        = map (\<lambda>w. w @ lit '' '') xs"
    by (rule nth_equalityI) (simp_all add: nth_enumerate_eq)
  then show ?thesis using snoc
    by (simp add: word_fragments_def enumerate_append_eq)
qed


text \<open>Rules that evaluate the string operations on a given text.\<close>

lemmas str_eval = lit_def isspace_def strip_def lstrip_def rstrip_def contains_def
  sublist_code(3) py_split.simps py_replace.simps split_ws.simps clean_response_def

section \<open>The prompts, written out\<close>

lemma render_turn_explicit:
  "render_turn msg =
     (if map_of msg (lit ''role'') = None \<or> map_of msg (lit ''role'') = Some (lit ''user'')
      then lit ''Question: '' else lit ''Answer: '')
     @ (case map_of msg (lit ''content'') of None \<Rightarrow> [] | Some c \<Rightarrow> c)"
  by (auto simp: render_turn_def dict_get_def Let_def split: option.splits)

lemma prompt_parts_explicit:
  "prompt_parts query context chat_history =
     (case context of
        None \<Rightarrow> []
      | Some c \<Rightarrow> if c = [] then [] else [lit ''Context from college documents:'', c, []])
     @ map (\<lambda>msg.
          (if map_of msg (lit ''role'') = None \<or> map_of msg (lit ''role'') = Some (lit ''user'')
           then lit ''Question: '' else lit ''Answer: '')
          @ (case map_of msg (lit ''content'') of None \<Rightarrow> [] | Some c \<Rightarrow> c))
         (case chat_history of None \<Rightarrow> [] | Some h \<Rightarrow> drop (length h - 3) h)
     @ [lit ''Question: '' @ query, lit ''Answer:'']"
proof -
  have rt: "render_turn = (\<lambda>msg.
          (if map_of msg (lit ''role'') = None \<or> map_of msg (lit ''role'') = Some (lit ''user'')
           then lit ''Question: '' else lit ''Answer: '')
          @ (case map_of msg (lit ''content'') of None \<Rightarrow> [] | Some c \<Rightarrow> c))"
    by (rule ext) (rule render_turn_explicit)
  have ctx: "(if truthy context then [lit ''Context from college documents:'', the context, []] else [])
      = (case context of None \<Rightarrow> []
         | Some c \<Rightarrow> if c = [] then [] else [lit ''Context from college documents:'', c, []])"
    by (simp add: truthy_def split: option.split)
  have hist: "(if truthy chat_history then map render_turn (last_n 3 (the chat_history)) else [])
      = map render_turn (case chat_history of None \<Rightarrow> [] | Some h \<Rightarrow> drop (length h - 3) h)"
    by (simp add: truthy_def last_n_def split: option.split)
  show ?thesis
    unfolding prompt_parts_def ctx hist by (simp only: rt)
qed

lemma build_messages_explicit:
  "build_messages persona query context chat_history =
     [(lit ''role'', lit ''system''),
      (lit ''content'',
       persona @
       (case context of
          None \<Rightarrow> []
        | Some c \<Rightarrow> if c = [] then []
                    else lit ''\<newline>\<newline>Relevant context from college documents:\<newline>'' @ c))]
     # (case chat_history of None \<Rightarrow> [] | Some h \<Rightarrow> drop (length h - 5) h)
     @ [[(lit ''role'', lit ''user''), (lit ''content'', query)]]"
  by (simp add: build_messages_def truthy_def last_n_def split: option.split)

section \<open>The structure of the local prompt\<close>

text \<open>
  C5. For every query, optional context and history, the local prompt is the lines, joined
  by newlines, in this order: when a context is given (not \<open>None\<close> and not empty), the
  label line \<open>Context from college documents:\<close>, the context text and an empty line;
  then, for each of the last 3 history turns (all of them when there are fewer),
  \<open>Question: <content>\<close> when its role is \<open>user\<close> or absent and
  \<open>Answer: <content>\<close> otherwise; then \<open>Question: <query>\<close>; then \<open>Answer:\<close>.
  So every local prompt ends with the current query as a question followed by the
  answer cue. Four prompts are written out: with a context and four turns, with nothing
  but the query, with an empty context and two turns, and with an empty history.
\<close>

theorem build_local_prompt_lines:
  "build_local_prompt query context chat_history =
     py_join (lit ''\<newline>'')
       ((case context of
           None \<Rightarrow> []
         | Some c \<Rightarrow> if c = [] then [] else [lit ''Context from college documents:'', c, []])
        @ map (\<lambda>msg.
             (if map_of msg (lit ''role'') = None \<or> map_of msg (lit ''role'') = Some (lit ''user'')
              then lit ''Question: '' else lit ''Answer: '')
             @ (case map_of msg (lit ''content'') of None \<Rightarrow> [] | Some c \<Rightarrow> c))
            (case chat_history of None \<Rightarrow> [] | Some h \<Rightarrow> drop (length h - 3) h)
        @ [lit ''Question: '' @ query, lit ''Answer:''])
   \<and> suffix (lit ''Question: '' @ query @ lit ''\<newline>Answer:'')
         (build_local_prompt query context chat_history)
   \<and> build_local_prompt (lit ''When does the library open?'')
         (Some (lit ''Library hours: 9am-5pm.'')) (Some four_turns)
       = lit (''Context from college documents:\<newline>'' @
              ''Library hours: 9am-5pm.\<newline>'' @
              ''\<newline>'' @
              ''Answer: Hello!\<newline>'' @
              ''Question: Where is it?\<newline>'' @
              ''Answer: \<newline>'' @
              ''Question: When does the library open?\<newline>'' @
              ''Answer:'')
   \<and> build_local_prompt (lit ''When does the library open?'') None None
       = lit ''Question: When does the library open?\<newline>Answer:''
   \<and> build_local_prompt (lit ''When does the library open?'') (Some []) (Some two_turns)
       = lit (''Question: Hi\<newline>'' @
              ''Answer: Hello!\<newline>'' @
              ''Question: When does the library open?\<newline>'' @
              ''Answer:'')
   \<and> build_local_prompt (lit ''When does the library open?'') None (Some [])
       = lit ''Question: When does the library open?\<newline>Answer:''"
proof -
  have 1: "build_local_prompt query context chat_history =
     py_join (lit ''\<newline>'')
       ((case context of
           None \<Rightarrow> []
         | Some c \<Rightarrow> if c = [] then [] else [lit ''Context from college documents:'', c, []])
        @ map (\<lambda>msg.
             (if map_of msg (lit ''role'') = None \<or> map_of msg (lit ''role'') = Some (lit ''user'')
              then lit ''Question: '' else lit ''Answer: '')
             @ (case map_of msg (lit ''content'') of None \<Rightarrow> [] | Some c \<Rightarrow> c))
            (case chat_history of None \<Rightarrow> [] | Some h \<Rightarrow> drop (length h - 3) h)
        @ [lit ''Question: '' @ query, lit ''Answer:''])"
    unfolding build_local_prompt_def by (simp only: prompt_parts_explicit)
  obtain pre where "build_local_prompt query context chat_history
      = pre @ (lit ''Question: '' @ query) @ lit ''\<newline>'' @ lit ''Answer:''"
    unfolding build_local_prompt_def prompt_parts_def
    using py_join_snoc2 [of "lit ''\<newline>''" _ "lit ''Question: '' @ query" "lit ''Answer:''"]
    by (metis append.assoc)
  then have 2: "suffix (lit ''Question: '' @ query @ lit ''\<newline>Answer:'')
         (build_local_prompt query context chat_history)"
    by (simp add: suffix_def lit_def)
  have 3: "build_local_prompt (lit ''When does the library open?'')
         (Some (lit ''Library hours: 9am-5pm.'')) (Some four_turns)
       = lit (''Context from college documents:\<newline>'' @
              ''Library hours: 9am-5pm.\<newline>'' @
              ''\<newline>'' @
              ''Answer: Hello!\<newline>'' @
              ''Question: Where is it?\<newline>'' @
              ''Answer: \<newline>'' @
              ''Question: When does the library open?\<newline>'' @
              ''Answer:'')"
    by (simp add: build_local_prompt_def prompt_parts_def truthy_def last_n_def render_turn_def
        dict_get_def four_turns_def lit_def)
  have 4: "build_local_prompt (lit ''When does the library open?'') None None
       = lit ''Question: When does the library open?\<newline>Answer:''"
    by (simp add: build_local_prompt_def prompt_parts_def truthy_def lit_def)
  have 5: "build_local_prompt (lit ''When does the library open?'') (Some []) (Some two_turns)
       = lit (''Question: Hi\<newline>'' @
              ''Answer: Hello!\<newline>'' @
              ''Question: When does the library open?\<newline>'' @
              ''Answer:'')"
    by (simp add: build_local_prompt_def prompt_parts_def truthy_def last_n_def render_turn_def
        dict_get_def two_turns_def lit_def)
  have 6: "build_local_prompt (lit ''When does the library open?'') None (Some [])
       = lit ''Question: When does the library open?\<newline>Answer:''"
    by (simp add: build_local_prompt_def prompt_parts_def truthy_def lit_def)
  show ?thesis
    using 1 2 3 4 5 6 by blast
qed

text \<open>
  C10. A history turn is rendered as \<open>Question: <content>\<close> if and only if its role
  is the string \<open>user\<close> or it has no role; any other role, \<open>system\<close> and
  \<open>assistant\<close> among them, gives \<open>Answer: <content>\<close>, and a turn without content
  is rendered with the empty string.
\<close>

theorem render_turn_by_role:
  "render_turn msg =
     (if map_of msg (lit ''role'') = None \<or> map_of msg (lit ''role'') = Some (lit ''user'')
      then lit ''Question: '' else lit ''Answer: '')
     @ (case map_of msg (lit ''content'') of None \<Rightarrow> [] | Some c \<Rightarrow> c)
   \<and> (prefix (lit ''Question: '') (render_turn msg)
        \<longleftrightarrow> map_of msg (lit ''role'') = None \<or> map_of msg (lit ''role'') = Some (lit ''user''))
   \<and> render_turn [(lit ''role'', lit ''system''), (lit ''content'', c)] = lit ''Answer: '' @ c
   \<and> render_turn [(lit ''role'', lit ''assistant''), (lit ''content'', c)] = lit ''Answer: '' @ c
   \<and> render_turn [(lit ''content'', c)] = lit ''Question: '' @ c
   \<and> render_turn [(lit ''role'', lit ''user'')] = lit ''Question: ''"
proof -
  have 1: "render_turn msg =
     (if map_of msg (lit ''role'') = None \<or> map_of msg (lit ''role'') = Some (lit ''user'')
      then lit ''Question: '' else lit ''Answer: '')
     @ (case map_of msg (lit ''content'') of None \<Rightarrow> [] | Some c \<Rightarrow> c)"
    by (auto simp: render_turn_def dict_get_def Let_def split: option.splits)
  have 2: "prefix (lit ''Question: '') (render_turn msg)
        \<longleftrightarrow> map_of msg (lit ''role'') = None \<or> map_of msg (lit ''role'') = Some (lit ''user'')"
    unfolding 1 by (simp add: lit_def)
  have 3: "render_turn [(lit ''role'', lit ''system''), (lit ''content'', c)] = lit ''Answer: '' @ c"
    "render_turn [(lit ''role'', lit ''assistant''), (lit ''content'', c)] = lit ''Answer: '' @ c"
    "render_turn [(lit ''content'', c)] = lit ''Question: '' @ c"
    "render_turn [(lit ''role'', lit ''user'')] = lit ''Question: ''"
    by (simp_all add: render_turn_def dict_get_def lit_def)
  show ?thesis using 1 2 3 by blast
qed

text \<open>
  C9. The local prompt builder is deterministic: two calls with the same query, the same
  context and histories whose turns are equal as Python dicts (whatever the order of
  their keys) return the same string. The builder takes nothing but these three
  arguments.
\<close>

theorem build_local_prompt_deterministic:
  assumes "query = query'" and "context = context'" and "list_all2 dict_eq history history'"
  shows "build_local_prompt query context (Some history)
         = build_local_prompt query' context' (Some history')"
proof -
  have "map render_turn (last_n 3 history) = map render_turn (last_n 3 history')"
    using assms(3) by (intro map_render_cong list_all2_last_n)
  moreover have "history = [] \<longleftrightarrow> history' = []"
    using assms(3) by (auto dest: list_all2_lengthD)
  ultimately show ?thesis
    using assms(1,2) by (simp add: build_local_prompt_def prompt_parts_def truthy_def)
qed

theorem build_local_prompt_deterministic_witness:
  "build_local_prompt (lit ''Q'') None
      (Some [[(lit ''role'', lit ''user''), (lit ''content'', lit ''hi'')]])
   = build_local_prompt (lit ''Q'') None
      (Some [[(lit ''content'', lit ''hi''), (lit ''role'', lit ''user'')]])"
proof -
  have "list_all2 dict_eq [[(lit ''role'', lit ''user''), (lit ''content'', lit ''hi'')]]
          [[(lit ''content'', lit ''hi''), (lit ''role'', lit ''user'')]]"
    by (auto simp: dict_eq_def lit_def fun_eq_iff)
  then show ?thesis
    by (rule build_local_prompt_deterministic [OF refl refl])
qed

section \<open>History truncation\<close>

text \<open>
  C4. For every chat history longer than the bound, the prompt holds exactly the last N
  turns, in their order and unchanged: the message list of the remote backend (of the
  synchronous and of the streaming call) is the system message, the last 5 turns and
  the user message, and nothing else; the lines of the local prompt are the context
  block, the renderings of the last 3 turns, the question and the answer cue.
\<close>

theorem history_truncation:
  "(5 < length history \<longrightarrow>
      messages (generate_groq_request model_name query context (Some history))
        = [(lit ''role'', lit ''system''),
           (lit ''content'',
            generate_groq_system_prompt @
            (case context of
               None \<Rightarrow> []
             | Some c \<Rightarrow> if c = [] then []
                         else lit ''\<newline>\<newline>Relevant context from college documents:\<newline>'' @ c))]
          # drop (length history - 5) history
          @ [[(lit ''role'', lit ''user''), (lit ''content'', query)]]
      \<and> messages (stream_groq_request model_name query context (Some history))
        = [(lit ''role'', lit ''system''),
           (lit ''content'',
            stream_groq_system_prompt @
            (case context of
               None \<Rightarrow> []
             | Some c \<Rightarrow> if c = [] then []
                         else lit ''\<newline>\<newline>Relevant context from college documents:\<newline>'' @ c))]
          # drop (length history - 5) history
          @ [[(lit ''role'', lit ''user''), (lit ''content'', query)]]
      \<and> length (drop (length history - 5) history) = 5)
   \<and> (3 < length history \<longrightarrow>
      build_local_prompt query context (Some history)
        = py_join (lit ''\<newline>'')
            ((case context of
                None \<Rightarrow> []
              | Some c \<Rightarrow> if c = [] then []
                          else [lit ''Context from college documents:'', c, []])
             @ map (\<lambda>msg.
                  (if map_of msg (lit ''role'') = None
                      \<or> map_of msg (lit ''role'') = Some (lit ''user'')
                   then lit ''Question: '' else lit ''Answer: '')
                  @ (case map_of msg (lit ''content'') of None \<Rightarrow> [] | Some c \<Rightarrow> c))
                 (drop (length history - 3) history)
             @ [lit ''Question: '' @ query, lit ''Answer:''])
      \<and> length (drop (length history - 3) history) = 3)
   \<and> suffix (drop (length history - 5) history) history
   \<and> suffix (drop (length history - 3) history) history"
proof -
  have rt: "render_turn = (\<lambda>msg.
          (if map_of msg (lit ''role'') = None \<or> map_of msg (lit ''role'') = Some (lit ''user'')
           then lit ''Question: '' else lit ''Answer: '')
          @ (case map_of msg (lit ''content'') of None \<Rightarrow> [] | Some c \<Rightarrow> c))"
    by (rule ext) (auto simp: render_turn_def dict_get_def Let_def split: option.splits)
  have remote: "build_messages persona query context (Some history)
      = [(lit ''role'', lit ''system''),
         (lit ''content'',
          persona @
          (case context of
             None \<Rightarrow> []
           | Some c \<Rightarrow> if c = [] then []
                       else lit ''\<newline>\<newline>Relevant context from college documents:\<newline>'' @ c))]
        # drop (length history - 5) history
        @ [[(lit ''role'', lit ''user''), (lit ''content'', query)]]"
    if "5 < length history" for persona
    using that by (auto simp: build_messages_def truthy_def last_n_def split: option.split)
  have loc: "prompt_parts query context (Some history)
      = (case context of
           None \<Rightarrow> []
         | Some c \<Rightarrow> if c = [] then []
                     else [lit ''Context from college documents:'', c, []])
        @ map render_turn (drop (length history - 3) history)
        @ [lit ''Question: '' @ query, lit ''Answer:'']"
    if "3 < length history"
    using that by (auto simp: prompt_parts_def truthy_def last_n_def split: option.split)
  show ?thesis
    using remote loc
    by (simp add: generate_groq_request_def stream_groq_request_def build_local_prompt_def
        rt suffix_drop)
qed

theorem history_truncation_witness:
  "messages (generate_groq_request (lit ''m'') (lit ''q'') None (Some six_turns))
     = [[(lit ''role'', lit ''system''), (lit ''content'', generate_groq_system_prompt)],
        [(lit ''role'', lit ''assistant''), (lit ''content'', lit ''b'')],
        [(lit ''role'', lit ''user''), (lit ''content'', lit ''c'')],
        [(lit ''role'', lit ''assistant''), (lit ''content'', lit ''d'')],
        [(lit ''role'', lit ''user''), (lit ''content'', lit ''e'')],
        [(lit ''role'', lit ''assistant''), (lit ''content'', lit ''f'')],
        [(lit ''role'', lit ''user''), (lit ''content'', lit ''q'')]]
   \<and> messages (stream_groq_request (lit ''m'') (lit ''q'') (Some (lit ''ctx'')) (Some six_turns))
     = [[(lit ''role'', lit ''system''),
         (lit ''content'',
          stream_groq_system_prompt
          @ lit ''\<newline>\<newline>Relevant context from college documents:\<newline>ctx'')],
        [(lit ''role'', lit ''assistant''), (lit ''content'', lit ''b'')],
        [(lit ''role'', lit ''user''), (lit ''content'', lit ''c'')],
        [(lit ''role'', lit ''assistant''), (lit ''content'', lit ''d'')],
        [(lit ''role'', lit ''user''), (lit ''content'', lit ''e'')],
        [(lit ''role'', lit ''assistant''), (lit ''content'', lit ''f'')],
        [(lit ''role'', lit ''user''), (lit ''content'', lit ''q'')]]
   \<and> build_local_prompt (lit ''q'') None (Some six_turns)
     = lit ''Answer: d\<newline>Question: e\<newline>Answer: f\<newline>Question: q\<newline>Answer:''"
proof -
  have len: "5 < length six_turns" "3 < length six_turns"
    by (simp_all add: six_turns_def)
  have d5: "drop (length six_turns - 5) six_turns
      = [[(lit ''role'', lit ''assistant''), (lit ''content'', lit ''b'')],
         [(lit ''role'', lit ''user''), (lit ''content'', lit ''c'')],
         [(lit ''role'', lit ''assistant''), (lit ''content'', lit ''d'')],
         [(lit ''role'', lit ''user''), (lit ''content'', lit ''e'')],
         [(lit ''role'', lit ''assistant''), (lit ''content'', lit ''f'')]]"
    by (simp add: six_turns_def)
  have d3: "drop (length six_turns - 3) six_turns
      = [[(lit ''role'', lit ''assistant''), (lit ''content'', lit ''d'')],
         [(lit ''role'', lit ''user''), (lit ''content'', lit ''e'')],
         [(lit ''role'', lit ''assistant''), (lit ''content'', lit ''f'')]]"
    by (simp add: six_turns_def)
  from history_truncation [of six_turns "lit ''m''" "lit ''q''" None] len
  have a: "messages (generate_groq_request (lit ''m'') (lit ''q'') None (Some six_turns))
        = [(lit ''role'', lit ''system''),
           (lit ''content'', generate_groq_system_prompt @ [])]
          # drop (length six_turns - 5) six_turns
          @ [[(lit ''role'', lit ''user''), (lit ''content'', lit ''q'')]]"
    and c: "build_local_prompt (lit ''q'') None (Some six_turns)
        = py_join (lit ''\<newline>'')
            ([] @ map (\<lambda>msg.
                  (if map_of msg (lit ''role'') = None
                      \<or> map_of msg (lit ''role'') = Some (lit ''user'')
                   then lit ''Question: '' else lit ''Answer: '')
                  @ (case map_of msg (lit ''content'') of None \<Rightarrow> [] | Some c \<Rightarrow> c))
                 (drop (length six_turns - 3) six_turns)
             @ [lit ''Question: '' @ lit ''q'', lit ''Answer:''])"
    by simp_all
  from history_truncation [of six_turns "lit ''m''" "lit ''q''" "Some (lit ''ctx'')"] len
  have b: "messages (stream_groq_request (lit ''m'') (lit ''q'') (Some (lit ''ctx'')) (Some six_turns))
        = [(lit ''role'', lit ''system''),
           (lit ''content'',
            stream_groq_system_prompt @
            (if lit ''ctx'' = [] then []
             else lit ''\<newline>\<newline>Relevant context from college documents:\<newline>'' @ lit ''ctx''))]
          # drop (length six_turns - 5) six_turns
          @ [[(lit ''role'', lit ''user''), (lit ''content'', lit ''q'')]]"
    by simp
  have a': "messages (generate_groq_request (lit ''m'') (lit ''q'') None (Some six_turns))
     = [[(lit ''role'', lit ''system''), (lit ''content'', generate_groq_system_prompt)],
        [(lit ''role'', lit ''assistant''), (lit ''content'', lit ''b'')],
        [(lit ''role'', lit ''user''), (lit ''content'', lit ''c'')],
        [(lit ''role'', lit ''assistant''), (lit ''content'', lit ''d'')],
        [(lit ''role'', lit ''user''), (lit ''content'', lit ''e'')],
        [(lit ''role'', lit ''assistant''), (lit ''content'', lit ''f'')],
        [(lit ''role'', lit ''user''), (lit ''content'', lit ''q'')]]"
    unfolding a d5 by simp
  have b': "messages (stream_groq_request (lit ''m'') (lit ''q'') (Some (lit ''ctx'')) (Some six_turns))
     = [[(lit ''role'', lit ''system''),
         (lit ''content'',
          stream_groq_system_prompt
          @ lit ''\<newline>\<newline>Relevant context from college documents:\<newline>ctx'')],
        [(lit ''role'', lit ''assistant''), (lit ''content'', lit ''b'')],
        [(lit ''role'', lit ''user''), (lit ''content'', lit ''c'')],
        [(lit ''role'', lit ''assistant''), (lit ''content'', lit ''d'')],
        [(lit ''role'', lit ''user''), (lit ''content'', lit ''e'')],
        [(lit ''role'', lit ''assistant''), (lit ''content'', lit ''f'')],
        [(lit ''role'', lit ''user''), (lit ''content'', lit ''q'')]]"
    unfolding b d5 by (simp add: lit_def)
  have c': "build_local_prompt (lit ''q'') None (Some six_turns)
     = lit ''Answer: d\<newline>Question: e\<newline>Answer: f\<newline>Question: q\<newline>Answer:''"
    unfolding c d3 by (simp add: lit_def)
  show ?thesis using a' b' c' by blast
qed

section \<open>The remote synchronous path\<close>

text \<open>
  C7. The remote synchronous path sends one system message (the fixed persona text, with
  the context appended when one is given), then the last 5 history turns as they are
  (all of them when there are fewer), then one user message whose content is the query,
  and it returns the text of the first choice of the completion as it is. With the
  context \<open>Library hours: 9am-5pm.\<close>, the query \<open>When does the library open?\<close> and an
  empty history, the system message ends with the context and the user message is the
  query. The message lists for a history of six turns and for one of two turns are
  written out.
\<close>

theorem generate_groq_messages_and_result:
  "messages (generate_groq_request model_name query context chat_history) =
     [(lit ''role'', lit ''system''),
      (lit ''content'',
       generate_groq_system_prompt @
       (case context of
          None \<Rightarrow> []
        | Some c \<Rightarrow> if c = [] then []
                    else lit ''\<newline>\<newline>Relevant context from college documents:\<newline>'' @ c))]
     # (case chat_history of None \<Rightarrow> [] | Some h \<Rightarrow> drop (length h - 5) h)
     @ [[(lit ''role'', lit ''user''), (lit ''content'', query)]]
   \<and> length (case chat_history of None \<Rightarrow> [] | Some h \<Rightarrow> drop (length h - 5) h)
       = min 5 (length (case chat_history of None \<Rightarrow> [] | Some h \<Rightarrow> h))
   \<and> (create client (generate_groq_request model_name query context chat_history)
          = Inr (text # rest)
        \<longrightarrow> generate_response (GroqService client model_name) query context chat_history
          = Inr text)
   \<and> messages (generate_groq_request model_name (lit ''When does the library open?'')
         (Some (lit ''Library hours: 9am-5pm.'')) (Some []))
       = [[(lit ''role'', lit ''system''),
           (lit ''content'',
            generate_groq_system_prompt
            @ lit ''\<newline>\<newline>Relevant context from college documents:\<newline>''
            @ lit ''Library hours: 9am-5pm.'')],
          [(lit ''role'', lit ''user''), (lit ''content'', lit ''When does the library open?'')]]
   \<and> messages (generate_groq_request model_name (lit ''When does the library open?'')
         None (Some six_turns))
       = [[(lit ''role'', lit ''system''), (lit ''content'', generate_groq_system_prompt)],
          [(lit ''role'', lit ''assistant''), (lit ''content'', lit ''b'')],
          [(lit ''role'', lit ''user''), (lit ''content'', lit ''c'')],
          [(lit ''role'', lit ''assistant''), (lit ''content'', lit ''d'')],
          [(lit ''role'', lit ''user''), (lit ''content'', lit ''e'')],
          [(lit ''role'', lit ''assistant''), (lit ''content'', lit ''f'')],
          [(lit ''role'', lit ''user''), (lit ''content'', lit ''When does the library open?'')]]
   \<and> messages (generate_groq_request model_name (lit ''When does the library open?'')
         (Some []) (Some two_turns))
       = [[(lit ''role'', lit ''system''), (lit ''content'', generate_groq_system_prompt)],
          [(lit ''role'', lit ''user''), (lit ''content'', lit ''Hi'')],
          [(lit ''role'', lit ''assistant''), (lit ''content'', lit ''Hello!'')],
          [(lit ''role'', lit ''user''), (lit ''content'', lit ''When does the library open?'')]]
   \<and> prefix (lit ''\<newline>            You are RizviGPT, an AI assistant'')
         generate_groq_system_prompt"
proof -
  have 1: "messages (generate_groq_request model_name query context chat_history) =
     [(lit ''role'', lit ''system''),
      (lit ''content'',
       generate_groq_system_prompt @
       (case context of
          None \<Rightarrow> []
        | Some c \<Rightarrow> if c = [] then []
                    else lit ''\<newline>\<newline>Relevant context from college documents:\<newline>'' @ c))]
     # (case chat_history of None \<Rightarrow> [] | Some h \<Rightarrow> drop (length h - 5) h)
     @ [[(lit ''role'', lit ''user''), (lit ''content'', query)]]"
    by (simp add: generate_groq_request_def build_messages_explicit)
  have 2: "length (case chat_history of None \<Rightarrow> [] | Some h \<Rightarrow> drop (length h - 5) h)
       = min 5 (length (case chat_history of None \<Rightarrow> [] | Some h \<Rightarrow> h))"
    by (cases chat_history) auto
  have 3: "create client (generate_groq_request model_name query context chat_history)
          = Inr (text # rest)
        \<longrightarrow> generate_response (GroqService client model_name) query context chat_history
          = Inr text"
    by (simp add: generate_response_def generate_groq_def)
  have 4: "messages (generate_groq_request model_name (lit ''When does the library open?'')
         (Some (lit ''Library hours: 9am-5pm.'')) (Some []))
       = [[(lit ''role'', lit ''system''),
           (lit ''content'',
            generate_groq_system_prompt
            @ lit ''\<newline>\<newline>Relevant context from college documents:\<newline>''
            @ lit ''Library hours: 9am-5pm.'')],
          [(lit ''role'', lit ''user''), (lit ''content'', lit ''When does the library open?'')]]"
    by (simp add: generate_groq_request_def build_messages_def truthy_def last_n_def lit_simps)
  have 5: "messages (generate_groq_request model_name (lit ''When does the library open?'')
         None (Some six_turns))
       = [[(lit ''role'', lit ''system''), (lit ''content'', generate_groq_system_prompt)],
          [(lit ''role'', lit ''assistant''), (lit ''content'', lit ''b'')],
          [(lit ''role'', lit ''user''), (lit ''content'', lit ''c'')],
          [(lit ''role'', lit ''assistant''), (lit ''content'', lit ''d'')],
          [(lit ''role'', lit ''user''), (lit ''content'', lit ''e'')],
          [(lit ''role'', lit ''assistant''), (lit ''content'', lit ''f'')],
          [(lit ''role'', lit ''user''), (lit ''content'', lit ''When does the library open?'')]]"
    by (simp add: generate_groq_request_def build_messages_def truthy_def last_n_def
        six_turns_def)
  have 6: "messages (generate_groq_request model_name (lit ''When does the library open?'')
         (Some []) (Some two_turns))
       = [[(lit ''role'', lit ''system''), (lit ''content'', generate_groq_system_prompt)],
          [(lit ''role'', lit ''user''), (lit ''content'', lit ''Hi'')],
          [(lit ''role'', lit ''assistant''), (lit ''content'', lit ''Hello!'')],
          [(lit ''role'', lit ''user''), (lit ''content'', lit ''When does the library open?'')]]"
    by (simp add: generate_groq_request_def build_messages_def truthy_def last_n_def
        two_turns_def)
  have 7: "prefix (lit ''\<newline>            You are RizviGPT, an AI assistant'')
         generate_groq_system_prompt"
    by (simp add: generate_groq_system_prompt_def lit_def)
  show ?thesis
    using 1 2 3 4 5 6 7 by blast
qed

theorem generate_groq_messages_and_result_witness:
  "generate_response (GroqService (fixed_client [lit ''At 9am.'', lit ''Soon.'']) (lit ''m''))
     (lit ''When does the library open?'') (Some (lit ''Library hours: 9am-5pm.''))
     (Some six_turns)
   = Inr (lit ''At 9am.'')"
proof -
  have "create (fixed_client [lit ''At 9am.'', lit ''Soon.''])
          (generate_groq_request (lit ''m'') (lit ''When does the library open?'')
             (Some (lit ''Library hours: 9am-5pm.'')) (Some six_turns))
        = Inr (lit ''At 9am.'' # [lit ''Soon.''])"
    by (simp add: fixed_client_def)
  with generate_groq_messages_and_result
         [of "lit ''m''" "lit ''When does the library open?''"
             "Some (lit ''Library hours: 9am-5pm.'')" "Some six_turns"
             "fixed_client [lit ''At 9am.'', lit ''Soon.'']" "lit ''At 9am.''" "[lit ''Soon.'']"]
  show ?thesis by blast
qed

section \<open>Local streaming\<close>

text \<open>
  C8. For the local backend the streaming operation computes the cleaned synchronous
  response first (an exception of that computation ends the stream before any fragment),
  splits it on whitespace and yields one fragment per word, in order, each with a
  trailing space except the last. The response \<open>It opens soon\<close> gives the fragments
  \<open>It \<close>, \<open>opens \<close>, \<open>soon\<close>.
\<close>

theorem local_streaming_words:
  "generate_streaming_response (LocalService device generator) query context chat_history =
     (case generate_response (LocalService device generator) query context chat_history of
        Inl e \<Rightarrow> ([], Some e)
      | Inr response \<Rightarrow>
          (if split_ws response = [] then []
           else map (\<lambda>word. word @ lit '' '') (butlast (split_ws response))
                @ [last (split_ws response)],
           None))
   \<and> (generate_response (LocalService device generator) query context chat_history
         = Inr (lit ''It opens soon'')
       \<longrightarrow> generate_streaming_response (LocalService device generator) query context chat_history
         = ([lit ''It '', lit ''opens '', lit ''soon''], None))"
proof -
  have 1: "generate_streaming_response (LocalService device generator) query context chat_history =
     (case generate_response (LocalService device generator) query context chat_history of
        Inl e \<Rightarrow> ([], Some e)
      | Inr response \<Rightarrow>
          (if split_ws response = [] then []
           else map (\<lambda>word. word @ lit '' '') (butlast (split_ws response))
                @ [last (split_ws response)],
           None))"
    by (simp add: generate_streaming_response_def generate_response_def word_fragments_eq
        split: sum.split)
  have w: "split_ws (lit ''It opens soon'') = [lit ''It'', lit ''opens'', lit ''soon'']"
    by (simp add: split_ws.simps lit_def isspace_def)
  have 2: "generate_response (LocalService device generator) query context chat_history
         = Inr (lit ''It opens soon'')
       \<longrightarrow> generate_streaming_response (LocalService device generator) query context chat_history
         = ([lit ''It '', lit ''opens '', lit ''soon''], None)"
    unfolding 1 by (simp add: w) (simp add: lit_def)
  show ?thesis using 1 2 by blast
qed

lemma generate_local_echo:
  "generate_local (echo_pipeline continuation) query context chat_history
   = Inr (clean_response (strip continuation))"
  by (simp add: generate_local_def echo_pipeline_def Let_def)

theorem local_streaming_words_witness:
  "generate_streaming_response (LocalService (lit ''cpu'') (echo_pipeline (lit '' It opens soon'')))
     (lit ''When does the library open?'') None None
   = ([lit ''It '', lit ''opens '', lit ''soon''], None)"
proof -
  have "clean_response (strip (lit '' It opens soon'')) = lit ''It opens soon''"
    by (simp add: str_eval)
  then have "generate_response (LocalService (lit ''cpu'') (echo_pipeline (lit '' It opens soon'')))
     (lit ''When does the library open?'') None None = Inr (lit ''It opens soon'')"
    by (simp add: generate_response_def generate_local_echo)
  with local_streaming_words [of "lit ''cpu''" "echo_pipeline (lit '' It opens soon'')"
      "lit ''When does the library open?''" None None]
  show ?thesis by blast
qed

section \<open>The fallback of the factory\<close>

lemma lit_append: "lit (a @ b) = lit a @ lit b"
  by (simp add: lit_def)

lemma init_local_model_absent:
  "\<not> path_exists env (configured_path env) \<Longrightarrow>
   init_local_model env (Some (configured_path env))
   = Inl (ValueError (lit ''Local model not found at '' @ configured_path env))"
  by (cases "configured_path env = []")
     (simp_all add: init_local_model_def configured_path_def truthy_def Let_def)

text \<open>
  C2, as amended. When local mode is requested and the local model path does not exist,
  the factory catches the failure of the local initialisation, prints the two lines of
  its handler and returns what the initialisation of the remote backend gives: a
  remote-mode instance when both lines can be written, the remote client can be
  constructed and the line of the remote initialisation can be written. The handler's
  prints and the fallback call stand outside the \<open>try\<close>, so an exception of a print or
  of the remote initialisation is not caught and reaches the caller. An instance that is
  returned in such a configuration is a remote-mode instance.
\<close>

theorem create_llm_service_fallback:
  assumes "requests_local env" and "\<not> path_exists env (configured_path env)"
  shows "create_llm_service env =
      (case print env (lit ''Error initializing local model: Local model not found at ''
                        @ configured_path env) of
         Some e \<Rightarrow> Inl e
       | None \<Rightarrow>
          (case print env (lit ''Falling back to Groq...'') of
             Some e \<Rightarrow> Inl e
           | None \<Rightarrow>
              (case Groq env (getenv env (lit ''GROQ_API_KEY'')) of
                 Inl e \<Rightarrow> Inl e
               | Inr client \<Rightarrow>
                  (case print env (0x2713 # lit '' Using Groq API'') of
                     Some e \<Rightarrow> Inl e
                   | None \<Rightarrow> Inr (GroqService client (lit ''llama-3.1-8b-instant''))))))
     \<and> (\<forall>service. create_llm_service env = Inr service \<longrightarrow> \<not> use_local_model service)"
proof -
  have local: "new_LLMService env True (Some (configured_path env))
      = Inl (ValueError (lit ''Local model not found at '' @ configured_path env))"
    using assms(2) by (simp add: new_LLMService_def init_local_model_absent)
  have msg: "lit ''Error initializing local model: ''
        @ error_str (ValueError (lit ''Local model not found at '' @ configured_path env))
      = lit ''Error initializing local model: Local model not found at '' @ configured_path env"
    by (simp add: lit_def)
  have 1: "create_llm_service env =
      (case print env (lit ''Error initializing local model: Local model not found at ''
                        @ configured_path env) of
         Some e \<Rightarrow> Inl e
       | None \<Rightarrow>
          (case print env (lit ''Falling back to Groq...'') of
             Some e \<Rightarrow> Inl e
           | None \<Rightarrow>
              (case Groq env (getenv env (lit ''GROQ_API_KEY'')) of
                 Inl e \<Rightarrow> Inl e
               | Inr client \<Rightarrow>
                  (case print env (0x2713 # lit '' Using Groq API'') of
                     Some e \<Rightarrow> Inl e
                   | None \<Rightarrow> Inr (GroqService client (lit ''llama-3.1-8b-instant''))))))"
  proof -
    have "create_llm_service env =
        print_then env (lit ''Error initializing local model: ''
            @ error_str (ValueError (lit ''Local model not found at '' @ configured_path env)))
          (print_then env (lit ''Falling back to Groq...'') (new_LLMService env False None))"
      using assms(1) local
      by (simp add: create_llm_service_def requests_local_def configured_path_def Let_def)
    then show ?thesis
      unfolding msg print_then_def new_LLMService_def init_groq_def check_mark_def
      by (simp split: option.split sum.split)
  qed
  have 2: "\<not> use_local_model service" if "create_llm_service env = Inr service" for service
    using that unfolding 1
    by (auto split: option.splits sum.splits)
  show ?thesis using 1 2 by blast
qed

theorem create_llm_service_fallback_counterexample:
  "requests_local env_without_key
   \<and> \<not> path_exists env_without_key (configured_path env_without_key)
   \<and> create_llm_service env_without_key
       = Inl (LibraryError (lit ''The api_key client option must be set''))
   \<and> requests_local env_ascii_stdout
   \<and> \<not> path_exists env_ascii_stdout (configured_path env_ascii_stdout)
   \<and> create_llm_service env_ascii_stdout
       = Inl (UnicodeEncodeError (lit ''ordinal not in range(128)''))"
proof -
  have a: "requests_local env_without_key
      \<and> \<not> path_exists env_without_key (configured_path env_without_key)
      \<and> create_llm_service env_without_key
          = Inl (LibraryError (lit ''The api_key client option must be set''))"
    by (simp add: requests_local_def configured_path_def create_llm_service_def
        new_LLMService_def init_local_model_def init_groq_def os_getenv_def env_without_key_def
        Groq_needs_key_def print_then_def lower_def truthy_def lit_def Let_def)
  have b: "requests_local env_ascii_stdout
      \<and> \<not> path_exists env_ascii_stdout (configured_path env_ascii_stdout)
      \<and> create_llm_service env_ascii_stdout
          = Inl (UnicodeEncodeError (lit ''ordinal not in range(128)''))"
    by (simp add: requests_local_def configured_path_def create_llm_service_def
        new_LLMService_def init_local_model_def init_groq_def os_getenv_def env_ascii_stdout_def
        Groq_needs_key_def print_then_def ascii_print_def check_mark_def lower_def truthy_def
        lit_def Let_def)
  show ?thesis using a b by blast
qed

theorem create_llm_service_fallback_witness:
  "create_llm_service env_with_key = Inr (GroqService silent_client (lit ''llama-3.1-8b-instant''))"
proof -
  have a: "requests_local env_with_key"
    by (simp add: requests_local_def os_getenv_def env_with_key_def lower_def lit_def)
  have b: "\<not> path_exists env_with_key (configured_path env_with_key)"
    by (simp add: env_with_key_def)
  have c: "Groq env_with_key (getenv env_with_key (lit ''GROQ_API_KEY'')) = Inr silent_client"
    by (simp add: env_with_key_def Groq_needs_key_def lit_def)
  have d: "print env_with_key line = None" for line
    by (simp add: env_with_key_def)
  from create_llm_service_fallback [OF a b] show ?thesis
    by (simp add: c d)
qed

section \<open>Facts about finding, splitting, replacing and stripping\<close>

subsection \<open>Finding a substring\<close>

lemma py_find_None_iff: "py_find sub s = None \<longleftrightarrow> \<not> sublist sub s"
  by (induction s) (auto simp: sublist_Cons_right)

lemma py_find_Some_bound: "py_find sub s = Some i \<Longrightarrow> i + length sub \<le> length s"
proof (induction s arbitrary: i)
  case Nil
  then show ?case by (auto split: if_splits)
next
  case (Cons c cs)
  then show ?case
    by (auto split: if_splits dest: prefix_length_le)
qed

lemma py_find_Some_prefix: "py_find sub s = Some i \<Longrightarrow> prefix sub (drop i s)"
proof (induction s arbitrary: i)
  case Nil
  then show ?case by (auto split: if_splits)
next
  case (Cons c cs)
  then show ?case by (auto split: if_splits)
qed

lemma py_find_Some_first:
  "py_find sub s = Some i \<Longrightarrow> j < i \<Longrightarrow> \<not> prefix sub (drop j s)"
proof (induction s arbitrary: i j)
  case Nil
  then show ?case by (auto split: if_splits)
next
  case (Cons c cs)
  show ?case
  proof (cases "prefix sub (c # cs)")
    case True
    with Cons.prems show ?thesis by simp
  next
    case False
    with Cons.prems obtain k where k: "py_find sub cs = Some k" "i = Suc k"
      by auto
    show ?thesis
    proof (cases j)
      case 0
      with False show ?thesis by simp
    next
      case (Suc j')
      with Cons.prems(2) k have "j' < k" by simp
      from Cons.IH [OF k(1) this] Suc show ?thesis by simp
    qed
  qed
qed

lemma py_find_Some_decomp:
  "py_find sub s = Some i \<Longrightarrow> s = take i s @ sub @ drop (i + length sub) s"
proof -
  assume a: "py_find sub s = Some i"
  from py_find_Some_prefix [OF a] obtain r where r: "drop i s = sub @ r"
    by (auto simp: prefix_def)
  have "drop (i + length sub) s = drop (length sub) (drop i s)"
    by (simp add: add.commute)
  also have "\<dots> = r" using r by simp
  finally have "sub @ drop (i + length sub) s = drop i s" using r by simp
  then show ?thesis by simp
qed

lemma py_find_take_no_sub:
  "py_find sub s = Some i \<Longrightarrow> sub \<noteq> [] \<Longrightarrow> \<not> sublist sub (take i s)"
proof (induction s arbitrary: i)
  case Nil
  then show ?case by (auto split: if_splits)
next
  case (Cons c cs)
  show ?case
  proof (cases "prefix sub (c # cs)")
    case True
    with Cons.prems show ?thesis by simp
  next
    case False
    with Cons.prems obtain k where k: "py_find sub cs = Some k" "i = Suc k"
      by auto
    have "\<not> prefix sub (c # take k cs)"
    proof
      assume "prefix sub (c # take k cs)"
      moreover have "prefix (c # take k cs) (c # cs)"
        by (simp add: take_is_prefix)
      ultimately have "prefix sub (c # cs)"
        by (rule prefix_order.trans)
      with False show False by simp
    qed
    with Cons.IH [OF k(1) Cons.prems(2)] k(2) show ?thesis
      by (simp add: sublist_Cons_right)
  qed
qed

subsection \<open>Splitting and replacing\<close>

lemma py_split_nonempty: "py_split sep s \<noteq> []"
  by (subst py_split.simps) (simp split: option.split)

lemma py_split_hd:
  "sep \<noteq> [] \<Longrightarrow> hd (py_split sep s) = (case py_find sep s of None \<Rightarrow> s | Some i \<Rightarrow> take i s)"
  by (subst py_split.simps) (simp split: option.split)

lemma py_split_length_iff: "sep \<noteq> [] \<Longrightarrow> 1 < length (py_split sep s) \<longleftrightarrow> sublist sep s"
proof -
  assume sep: "sep \<noteq> []"
  show ?thesis
  proof (cases "py_find sep s")
    case None
    then show ?thesis using sep
      by (subst py_split.simps) (simp add: py_find_None_iff [symmetric])
  next
    case (Some i)
    then have "sublist sep s"
      using py_find_None_iff [of sep s] by simp
    moreover have "1 < length (py_split sep s)"
      using Some sep py_split_nonempty [of sep "drop (i + length sep) s"]
      by (subst py_split.simps) (simp add: Suc_lessI)
    ultimately show ?thesis by simp
  qed
qed

lemma py_replace_absent: "\<not> sublist old s \<Longrightarrow> py_replace old new s = s"
proof -
  assume a: "\<not> sublist old s"
  then have "old \<noteq> []" by auto
  moreover have "py_find old s = None" using a by (simp add: py_find_None_iff)
  ultimately show ?thesis by (subst py_replace.simps) simp
qed

lemma length_py_replace_le: "old \<noteq> [] \<Longrightarrow> length (py_replace old [] s) \<le> length s"
proof (induction old "[] :: pystr" s rule: py_replace.induct)
  case (1 old s)
  show ?case
  proof (cases "py_find old s")
    case None
    then show ?thesis using 1(2) by (subst py_replace.simps) simp
  next
    case (Some i)
    have "length (py_replace old [] (drop (i + length old) s)) \<le> length s - (i + length old)"
      using 1(1) [OF 1(2) Some] 1(2) by simp
    moreover have "i + length old \<le> length s"
      using Some by (rule py_find_Some_bound)
    ultimately show ?thesis using Some 1(2)
      by (subst py_replace.simps) simp
  qed
qed

lemma length_py_replace_less:
  "old \<noteq> [] \<Longrightarrow> sublist old s \<Longrightarrow> length (py_replace old [] s) < length s"
proof -
  assume old: "old \<noteq> []" and sub: "sublist old s"
  then obtain i where i: "py_find old s = Some i"
    using py_find_None_iff [of old s] by auto
  have "length (py_replace old [] (drop (i + length old) s)) \<le> length s - (i + length old)"
    using length_py_replace_le [OF old, of "drop (i + length old) s"] by simp
  moreover have "i + length old \<le> length s"
    using i by (rule py_find_Some_bound)
  moreover have "0 < length old" using old by simp
  ultimately have "i + length (py_replace old [] (drop (i + length old) s)) < length s"
    by linarith
  then show ?thesis using i old
    by (subst py_replace.simps) simp
qed

lemma py_replace_remove_all: "sub \<noteq> [] \<Longrightarrow> py_replace sub [] s = remove_all sub s"
proof (induction sub s rule: py_split.induct)
  case (1 sep s)
  show ?case
  proof (cases "py_find sep s")
    case None
    then show ?thesis using 1(2)
      unfolding remove_all_def
      by (subst py_replace.simps, subst py_split.simps) simp
  next
    case (Some i)
    have "py_replace sep [] (drop (i + length sep) s)
        = remove_all sep (drop (i + length sep) s)"
      using 1(1) [OF 1(2) Some] 1(2) by simp
    then show ?thesis using Some 1(2)
      unfolding remove_all_def
      by (subst py_replace.simps, subst py_split.simps) simp
  qed
qed

subsection \<open>Stripping\<close>

lemma rstrip_prefix: "prefix (rstrip s) s"
proof -
  have "rstrip s @ rev (takeWhile isspace (rev s)) = s"
    unfolding rstrip_def rev_append [symmetric] by simp
  then show ?thesis by (metis prefixI)
qed

lemma lstrip_suffix: "suffix (lstrip s) s"
  by (simp add: lstrip_def suffix_dropWhile)

lemma strip_sublist: "sublist (strip s) s"
proof -
  have "sublist (rstrip (lstrip s)) (lstrip s)"
    using rstrip_prefix by (rule prefix_imp_sublist)
  moreover have "sublist (lstrip s) s"
    using lstrip_suffix by (rule suffix_imp_sublist)
  ultimately show ?thesis
    unfolding strip_def by (rule sublist_order.order.trans)
qed

lemma sublist_strip: "sublist x (strip s) \<Longrightarrow> sublist x s"
  using strip_sublist by (rule sublist_order.order.trans [rotated])

lemma length_strip_le: "length (strip s) \<le> length s"
  using strip_sublist [of s] by (rule sublist_length_le)

lemma rstrip_Cons: "\<not> isspace c \<Longrightarrow> rstrip (c # cs) = c # rstrip cs"
  by (simp add: rstrip_def dropWhile_append3)

lemma rstrip_idem: "rstrip (rstrip s) = rstrip s"
  by (simp add: rstrip_def)

lemma strip_cases:
  "strip s = (case dropWhile isspace s of [] \<Rightarrow> [] | c # cs \<Rightarrow> c # rstrip cs)"
proof (cases "dropWhile isspace s")
  case Nil
  show ?thesis unfolding strip_def lstrip_def Nil by (simp add: rstrip_def)
next
  case (Cons c cs)
  then have "\<not> isspace c"
    using hd_dropWhile [of isspace s] by auto
  then show ?thesis using Cons
    by (simp add: strip_def lstrip_def rstrip_Cons)
qed

lemma strip_idem: "strip (strip s) = strip s"
proof (cases "dropWhile isspace s")
  case Nil
  have "strip s = []" unfolding strip_cases Nil by simp
  moreover have "strip [] = []" by (simp add: strip_cases)
  ultimately show ?thesis by simp
next
  case (Cons c cs)
  then have nsp: "\<not> isspace c"
    using hd_dropWhile [of isspace s] by auto
  have "strip s = c # rstrip cs" using Cons by (simp add: strip_cases)
  moreover have "strip (c # rstrip cs) = c # rstrip cs"
    using nsp by (simp add: strip_cases rstrip_idem)
  ultimately show ?thesis by simp
qed

lemma strip_id:
  "s \<noteq> [] \<Longrightarrow> \<not> isspace (hd s) \<Longrightarrow> \<not> isspace (last s) \<Longrightarrow> strip s = s"
proof -
  assume a: "s \<noteq> []" "\<not> isspace (hd s)" "\<not> isspace (last s)"
  then have "dropWhile isspace s = s"
    by (cases s) simp_all
  moreover have "dropWhile isspace (rev s) = rev s"
    using a by (cases "rev s") (simp_all add: last_rev [symmetric] hd_rev)
  ultimately show ?thesis
    by (simp add: strip_def lstrip_def rstrip_def)
qed

lemma rstrip_append_spaces: "\<forall>c \<in> set ws. isspace c \<Longrightarrow> rstrip (s @ ws) = rstrip s"
proof -
  assume a: "\<forall>c \<in> set ws. isspace c"
  have "dropWhile isspace (rev ws @ rev s) = dropWhile isspace (rev s)"
    by (rule dropWhile_append2) (use a in simp)
  then show ?thesis by (simp add: rstrip_def)
qed

lemma not_sublist_if_hd_notin: "sub \<noteq> [] \<Longrightarrow> hd sub \<notin> set s \<Longrightarrow> \<not> sublist sub s"
proof
  assume a: "sub \<noteq> []" "hd sub \<notin> set s" and b: "sublist sub s"
  from b have "set sub \<subseteq> set s" by (rule set_mono_sublist)
  moreover have "hd sub \<in> set sub" using a(1) by simp
  ultimately show False using a(2) by blast
qed

section \<open>The steps of the response cleaner\<close>

subsection \<open>The cleaner follows the steps\<close>

lemma lit_nonempty: "lit ''Question:'' \<noteq> []" "lit ''Answer:'' \<noteq> []" "lit ''\<newline>\<newline>'' \<noteq> []"
  by (simp_all add: lit_def)

lemma hd_py_split: "sep \<noteq> [] \<Longrightarrow> hd (py_split sep s) = truncate_at_first sep s"
  by (simp add: py_split_hd truncate_at_first_def)

lemma spec_step2_eq: "spec_step2 s = py_replace (lit ''Answer:'') [] s"
  by (simp add: spec_step2_def py_replace_remove_all lit_nonempty)

lemma spec_step2_trimmed_eq: "spec_step2_trimmed s = strip (py_replace (lit ''Answer:'') [] s)"
  by (simp add: spec_step2_trimmed_def py_replace_remove_all lit_nonempty)

lemma clean_response_steps: "clean_response s = spec_clean_response_amended s"
  unfolding clean_response_def Let_def spec_clean_response_amended_def spec_step1_def
    spec_step2_trimmed_eq spec_step3_def contains_def
  by (simp only: hd_py_split [OF lit_nonempty(1)] hd_py_split [OF lit_nonempty(3)]
      py_split_length_iff [OF lit_nonempty(3)])

lemma length_truncate_le: "length (truncate_at_first sub s) \<le> length s"
  by (simp add: truncate_at_first_def split: option.split)

lemma length_truncate_less:
  "sub \<noteq> [] \<Longrightarrow> sublist sub s \<Longrightarrow> length (truncate_at_first sub s) < length s"
proof -
  assume sub: "sub \<noteq> []" and "sublist sub s"
  then obtain i where i: "py_find sub s = Some i"
    using py_find_None_iff [of sub s] by auto
  have "i + length sub \<le> length s" using i by (rule py_find_Some_bound)
  moreover have "0 < length sub" using sub by simp
  ultimately have "i < length s" by linarith
  then show ?thesis using i by (simp add: truncate_at_first_def)
qed

lemma truncate_no_sub:
  "sub \<noteq> [] \<Longrightarrow> sublist sub s \<Longrightarrow> \<not> sublist sub (truncate_at_first sub s)"
proof -
  assume sub: "sub \<noteq> []" and "sublist sub s"
  then obtain i where i: "py_find sub s = Some i"
    using py_find_None_iff [of sub s] by auto
  from py_find_take_no_sub [OF i sub] i show ?thesis
    by (simp add: truncate_at_first_def)
qed

lemma spec_step1_absent: "\<not> contains (lit ''Question:'') t \<Longrightarrow> spec_step1 t = t"
  by (simp add: spec_step1_def)

lemma spec_step2_trimmed_absent:
  "\<not> contains (lit ''Answer:'') t \<Longrightarrow> strip t = t \<Longrightarrow> spec_step2_trimmed t = t"
  by (simp add: spec_step2_trimmed_eq contains_def py_replace_absent)

lemma spec_step3_short:
  "\<not> (contains (lit ''\<newline>\<newline>'') t \<and> 500 < length t) \<Longrightarrow> spec_step3 t = t"
  unfolding spec_step3_def by (simp only: if_False)

lemma strip_spec_step2_trimmed: "strip (spec_step2_trimmed s) = spec_step2_trimmed s"
  by (simp add: spec_step2_trimmed_eq strip_idem)

lemma clean_response_fixed:
  assumes "\<not> contains (lit ''Question:'') t" and "\<not> contains (lit ''Answer:'') t"
    and "strip t = t" and "\<not> (contains (lit ''\<newline>\<newline>'') t \<and> 500 < length t)"
  shows "clean_response t = t"
  unfolding clean_response_steps spec_clean_response_amended_def
  by (simp only: spec_step1_absent [OF assms(1)] spec_step2_trimmed_absent [OF assms(2,3)]
      spec_step3_short [OF assms(4)] assms(3))

lemma clean_response_stripped: "strip (clean_response s) = clean_response s"
  by (simp only: clean_response_steps spec_clean_response_amended_def strip_idem)

lemma clean_response_short_or_one_paragraph:
  "\<not> (contains (lit ''\<newline>\<newline>'') (clean_response s) \<and> 500 < length (clean_response s))"
proof -
  define r2 where "r2 = spec_step2_trimmed (spec_step1 s)"
  have r2: "strip r2 = r2" unfolding r2_def by (rule strip_spec_step2_trimmed)
  have c: "clean_response s = strip (spec_step3 r2)"
    by (simp only: clean_response_steps spec_clean_response_amended_def r2_def)
  show ?thesis
  proof (cases "contains (lit ''\<newline>\<newline>'') r2 \<and> 500 < length r2")
    case True
    then have "spec_step3 r2 = truncate_at_first (lit ''\<newline>\<newline>'') r2"
      by (simp add: spec_step3_def)
    moreover have "\<not> sublist (lit ''\<newline>\<newline>'') (truncate_at_first (lit ''\<newline>\<newline>'') r2)"
      using True by (intro truncate_no_sub lit_nonempty) (simp add: contains_def)
    ultimately have "\<not> sublist (lit ''\<newline>\<newline>'') (clean_response s)"
      unfolding c using sublist_strip by metis
    then show ?thesis by (simp add: contains_def)
  next
    case False
    then have "spec_step3 r2 = r2" by (rule spec_step3_short)
    then have "clean_response s = r2" unfolding c using r2 by simp
    with False show ?thesis by simp
  qed
qed

lemma length_clean_response_less:
  assumes "contains (lit ''Question:'') s \<or> contains (lit ''Answer:'') s"
  shows "length (clean_response s) < length s"
proof -
  define r1 where "r1 = spec_step1 s"
  define r2 where "r2 = spec_step2_trimmed r1"
  have c: "clean_response s = strip (spec_step3 r2)"
    by (simp only: clean_response_steps spec_clean_response_amended_def r1_def r2_def)
  have "length (strip (spec_step3 r2)) \<le> length (spec_step3 r2)" by (rule length_strip_le)
  also have "\<dots> \<le> length r2"
    by (simp add: spec_step3_def length_truncate_le)
  also have "length r2 \<le> length (py_replace (lit ''Answer:'') [] r1)"
    unfolding r2_def spec_step2_trimmed_eq by (rule length_strip_le)
  finally have le: "length (clean_response s) \<le> length (py_replace (lit ''Answer:'') [] r1)"
    unfolding c .
  show ?thesis
  proof (cases "contains (lit ''Question:'') s")
    case True
    then have "length r1 < length s"
      by (simp add: r1_def spec_step1_def contains_def length_truncate_less lit_nonempty)
    moreover have "length (py_replace (lit ''Answer:'') [] r1) \<le> length r1"
      by (rule length_py_replace_le) (rule lit_nonempty)
    ultimately show ?thesis using le by linarith
  next
    case False
    with assms have "sublist (lit ''Answer:'') s" and "r1 = s"
      by (simp_all add: contains_def r1_def spec_step1_def)
    then have "length (py_replace (lit ''Answer:'') [] r1) < length s"
      by (simp add: length_py_replace_less lit_nonempty)
    then show ?thesis using le by linarith
  qed
qed

lemma truncate_at_first_decomp:
  assumes "sublist sub s"
  shows "\<exists>rest. s = truncate_at_first sub s @ sub @ rest"
proof -
  from assms obtain i where i: "py_find sub s = Some i"
    using py_find_None_iff [of sub s] by auto
  from py_find_Some_decomp [OF i] i show ?thesis
    by (auto simp: truncate_at_first_def)
qed

lemma py_find_append:
  "sub \<noteq> [] \<Longrightarrow> hd sub \<notin> set xs \<Longrightarrow> py_find sub (xs @ sub @ rest) = Some (length xs)"
proof (induction xs)
  case Nil
  then show ?case by (cases sub) simp_all
next
  case (Cons x xs)
  then have "\<not> prefix sub (x # xs @ sub @ rest)"
    by (cases sub) auto
  with Cons show ?case by simp
qed

text \<open>
  C3, as amended. For every input the cleaner computes these steps, each on the result of
  the one before: (1) if \<open>Question:\<close> occurs, truncate at its first occurrence;
  (2) remove every \<open>Answer:\<close> label and trim leading and trailing whitespace; (3) if
  the result contains a blank-line paragraph break and is longer than 500 characters,
  keep only the first paragraph; (4) trim leading and trailing whitespace. It maps
  \<open>It opens at 9am.\<close>, a blank line and \<open>Question: Anything else?\<close> to
  \<open>It opens at 9am.\<close>; it removes both labels of
  \<open>Answer: It opens at 9am. Answer: Daily.\<close>, also before a question that it cuts
  off; and it maps an input of more than 500 characters (600, say) that has a paragraph
  break, contains neither label and has no leading or trailing whitespace to its first
  paragraph, trimmed.
\<close>

theorem clean_response_follows_steps:
  "clean_response s = spec_clean_response_amended s
   \<and> clean_response (lit ''It opens at 9am.\<newline>\<newline>Question: Anything else?'')
       = lit ''It opens at 9am.''
   \<and> clean_response (lit ''Answer: It opens at 9am. Answer: Daily.'')
       = lit ''It opens at 9am.  Daily.''
   \<and> clean_response
         (lit ''Answer: It opens at 9am.\<newline>Answer: Daily.\<newline>\<newline>Question: Anything else?'')
       = lit ''It opens at 9am.\<newline> Daily.''
   \<and> (500 < length s \<and> contains (lit ''\<newline>\<newline>'') s \<and> \<not> contains (lit ''Question:'') s
        \<and> \<not> contains (lit ''Answer:'') s \<and> strip s = s
       \<longrightarrow> clean_response s = strip (truncate_at_first (lit ''\<newline>\<newline>'') s))"
proof -
  have 3: "clean_response (lit ''Answer: It opens at 9am. Answer: Daily.'')
       = lit ''It opens at 9am.  Daily.''"
    by (simp add: str_eval)
  have 4: "clean_response
         (lit ''Answer: It opens at 9am.\<newline>Answer: Daily.\<newline>\<newline>Question: Anything else?'')
       = lit ''It opens at 9am.\<newline> Daily.''"
    by (simp add: str_eval)
  have 1: "clean_response (lit ''It opens at 9am.\<newline>\<newline>Question: Anything else?'')
       = lit ''It opens at 9am.''"
    by (simp add: str_eval)
  have 2: "clean_response s = strip (truncate_at_first (lit ''\<newline>\<newline>'') s)"
    if a: "500 < length s" "contains (lit ''\<newline>\<newline>'') s" "\<not> contains (lit ''Question:'') s"
      "\<not> contains (lit ''Answer:'') s" "strip s = s"
  proof -
    have "spec_step3 s = truncate_at_first (lit ''\<newline>\<newline>'') s"
      using a(1,2) by (simp add: spec_step3_def)
    then show ?thesis
      unfolding clean_response_steps spec_clean_response_amended_def
      by (simp only: spec_step1_absent [OF a(3)] spec_step2_trimmed_absent [OF a(4,5)])
  qed
  show ?thesis
    using clean_response_steps 1 2 3 4 by blast
qed

theorem clean_response_follows_steps_counterexample:
  "length padded_two_paragraphs = 600
   \<and> contains (lit ''\<newline>\<newline>'') padded_two_paragraphs
   \<and> truncate_at_first (lit ''\<newline>\<newline>'') padded_two_paragraphs = lit ''x''
   \<and> clean_response padded_two_paragraphs = lit ''x\<newline>\<newline>y''
   \<and> spec_clean_response padded_two_paragraphs = lit ''x''"
proof -
  have len: "length padded_two_paragraphs = 600"
    by (simp add: padded_two_paragraphs_def lit_def)
  have nn: "contains (lit ''\<newline>\<newline>'') padded_two_paragraphs"
    by (simp add: padded_two_paragraphs_def lit_def contains_def sublist_code(3))
  have tr: "truncate_at_first (lit ''\<newline>\<newline>'') padded_two_paragraphs = lit ''x''"
    by (simp add: padded_two_paragraphs_def lit_def truncate_at_first_def)
  have noq: "\<not> contains (lit ''Question:'') padded_two_paragraphs"
    unfolding contains_def
    by (rule not_sublist_if_hd_notin) (simp_all add: padded_two_paragraphs_def lit_def)
  have noa: "\<not> contains (lit ''Answer:'') padded_two_paragraphs"
    unfolding contains_def
    by (rule not_sublist_if_hd_notin) (simp_all add: padded_two_paragraphs_def lit_def)
  have s1: "spec_step1 padded_two_paragraphs = padded_two_paragraphs"
    using noq by (rule spec_step1_absent)
  have rp: "py_replace (lit ''Answer:'') [] padded_two_paragraphs = padded_two_paragraphs"
    using noa by (simp add: contains_def py_replace_absent)
  have "lstrip padded_two_paragraphs = padded_two_paragraphs"
    by (simp add: lstrip_def padded_two_paragraphs_def lit_def isspace_def)
  moreover have "rstrip padded_two_paragraphs = rstrip (lit ''x\<newline>\<newline>y'')"
    unfolding padded_two_paragraphs_def
    by (rule rstrip_append_spaces) (simp add: isspace_def)
  moreover have "rstrip (lit ''x\<newline>\<newline>y'') = lit ''x\<newline>\<newline>y''"
    by (simp add: rstrip_def lit_def isspace_def)
  ultimately have st: "strip padded_two_paragraphs = lit ''x\<newline>\<newline>y''"
    by (simp add: strip_def)
  have s3: "spec_step3 (lit ''x\<newline>\<newline>y'') = lit ''x\<newline>\<newline>y''"
    by (rule spec_step3_short) (simp add: lit_def)
  have st2: "strip (lit ''x\<newline>\<newline>y'') = lit ''x\<newline>\<newline>y''"
    by (simp add: str_eval)
  have code: "clean_response padded_two_paragraphs = lit ''x\<newline>\<newline>y''"
    unfolding clean_response_steps spec_clean_response_amended_def s1 spec_step2_trimmed_eq
      rp st s3 st2 ..
  have "spec_step3 padded_two_paragraphs = lit ''x''"
    using nn len tr by (simp add: spec_step3_def)
  moreover have "strip (lit ''x'') = lit ''x''"
    by (simp add: str_eval)
  ultimately have spec: "spec_clean_response padded_two_paragraphs = lit ''x''"
    unfolding spec_clean_response_def s1 spec_step2_eq rp by simp
  show ?thesis using len nn tr code spec by simp
qed

theorem clean_response_follows_steps_witness:
  "length long_two_paragraphs = 600
   \<and> clean_response long_two_paragraphs = replicate 300 (of_char CHR ''a'')
   \<and> spec_clean_response_amended (lit ''Answer: It opens at 9am. Answer: Daily.'')
       = lit ''It opens at 9am.  Daily.''
   \<and> clean_response (lit ''Answer: It opens at 9am. Answer: Daily.'')
       = lit ''It opens at 9am.  Daily.''"
proof -
  have lab: "spec_clean_response_amended (lit ''Answer: It opens at 9am. Answer: Daily.'')
       = lit ''It opens at 9am.  Daily.''"
    by (simp add: spec_clean_response_amended_def spec_step1_def spec_step2_trimmed_def
        spec_step3_def remove_all_def truncate_at_first_def str_eval)
  have lab': "clean_response (lit ''Answer: It opens at 9am. Answer: Daily.'')
       = lit ''It opens at 9am.  Daily.''"
    using clean_response_follows_steps [of "lit ''Answer: It opens at 9am. Answer: Daily.''"]
    by (simp only: lab)
  have len: "length long_two_paragraphs = 600"
    by (simp add: long_two_paragraphs_def lit_def)
  have nn: "contains (lit ''\<newline>\<newline>'') long_two_paragraphs"
    by (simp add: long_two_paragraphs_def contains_def)
  have noq: "\<not> contains (lit ''Question:'') long_two_paragraphs"
    unfolding contains_def
    by (rule not_sublist_if_hd_notin) (simp_all add: long_two_paragraphs_def lit_def)
  have noa: "\<not> contains (lit ''Answer:'') long_two_paragraphs"
    unfolding contains_def
    by (rule not_sublist_if_hd_notin) (simp_all add: long_two_paragraphs_def lit_def)
  have st: "strip long_two_paragraphs = long_two_paragraphs"
    by (rule strip_id) (simp_all add: long_two_paragraphs_def lit_def isspace_def)
  have "py_find (lit ''\<newline>\<newline>'') long_two_paragraphs = Some 300"
    unfolding long_two_paragraphs_def
    using py_find_append [of "lit ''\<newline>\<newline>''" "replicate 300 (of_char CHR ''a'')"
        "replicate 298 (of_char CHR ''b'')"]
    by (simp add: lit_def)
  then have tr: "truncate_at_first (lit ''\<newline>\<newline>'') long_two_paragraphs
      = replicate 300 (of_char CHR ''a'')"
    by (simp add: truncate_at_first_def long_two_paragraphs_def)
  have st2: "strip (replicate 300 (of_char CHR ''a'') :: pystr) = replicate 300 (of_char CHR ''a'')"
    by (rule strip_id) (simp_all add: isspace_def)
  have "500 < length long_two_paragraphs" using len by simp
  with clean_response_follows_steps [of long_two_paragraphs] nn noq noa st
  have "clean_response long_two_paragraphs
        = strip (truncate_at_first (lit ''\<newline>\<newline>'') long_two_paragraphs)"
    by blast
  then show ?thesis using len tr st2 lab lab' by simp
qed

section \<open>The cleaner on its own output\<close>

lemma truncate_prefix: "prefix (truncate_at_first sub s) s"
  by (simp add: truncate_at_first_def take_is_prefix split: option.split)

lemma spec_step1_no_question: "\<not> contains (lit ''Question:'') (spec_step1 s)"
proof (cases "contains (lit ''Question:'') s")
  case True
  then show ?thesis
    using truncate_no_sub [OF lit_nonempty(1), of s]
    by (simp add: spec_step1_def contains_def)
next
  case False
  then show ?thesis by (simp add: spec_step1_def)
qed

lemma clean_response_sublist:
  "sublist (clean_response s) (py_replace (lit ''Answer:'') [] (spec_step1 s))"
proof -
  define r2 where "r2 = spec_step2_trimmed (spec_step1 s)"
  have c: "clean_response s = strip (spec_step3 r2)"
    by (simp only: clean_response_steps spec_clean_response_amended_def r2_def)
  have "sublist (strip (spec_step3 r2)) (spec_step3 r2)"
    by (rule strip_sublist)
  also have "sublist (spec_step3 r2) r2"
    using truncate_prefix [of "lit ''\<newline>\<newline>''" r2] by (simp add: spec_step3_def)
  also have "sublist r2 (py_replace (lit ''Answer:'') [] (spec_step1 s))"
    unfolding r2_def spec_step2_trimmed_eq by (rule strip_sublist)
  finally show ?thesis unfolding c .
qed

text \<open>
  C6, as amended. Cleaning an already cleaned text \<open>clean_response s\<close> again leaves
  it unchanged exactly when the cleaned text contains neither \<open>Question:\<close> nor
  \<open>Answer:\<close>. It changes the text only when the input, truncated at its first
  \<open>Question:\<close>, contained an \<open>Answer:\<close> label and the text that is left after the
  labels are removed contains a label again: the labels are removed in one pass, and the
  text around a removed label joined into a new one.
\<close>

theorem clean_response_idempotent_iff:
  "(clean_response (clean_response s) = clean_response s
    \<longleftrightarrow> \<not> contains (lit ''Question:'') (clean_response s)
        \<and> \<not> contains (lit ''Answer:'') (clean_response s))
   \<and> (clean_response (clean_response s) \<noteq> clean_response s
       \<longrightarrow> contains (lit ''Answer:'') (spec_step1 s)
         \<and> (contains (lit ''Question:'') (py_replace (lit ''Answer:'') [] (spec_step1 s))
            \<or> contains (lit ''Answer:'') (py_replace (lit ''Answer:'') [] (spec_step1 s))))"
proof -
  have iff: "clean_response (clean_response s) = clean_response s
    \<longleftrightarrow> \<not> contains (lit ''Question:'') (clean_response s)
        \<and> \<not> contains (lit ''Answer:'') (clean_response s)"
  proof
    assume eq: "clean_response (clean_response s) = clean_response s"
    show "\<not> contains (lit ''Question:'') (clean_response s)
         \<and> \<not> contains (lit ''Answer:'') (clean_response s)"
    proof (rule ccontr)
      assume "\<not> (\<not> contains (lit ''Question:'') (clean_response s)
         \<and> \<not> contains (lit ''Answer:'') (clean_response s))"
      then have "contains (lit ''Question:'') (clean_response s)
         \<or> contains (lit ''Answer:'') (clean_response s)"
        by blast
      then have "length (clean_response (clean_response s)) < length (clean_response s)"
        by (rule length_clean_response_less)
      with eq show False by simp
    qed
  next
    assume a: "\<not> contains (lit ''Question:'') (clean_response s)
         \<and> \<not> contains (lit ''Answer:'') (clean_response s)"
    show "clean_response (clean_response s) = clean_response s"
    proof (rule clean_response_fixed)
      show "\<not> contains (lit ''Question:'') (clean_response s)" using a by simp
      show "\<not> contains (lit ''Answer:'') (clean_response s)" using a by simp
      show "strip (clean_response s) = clean_response s" by (rule clean_response_stripped)
      show "\<not> (contains (lit ''\<newline>\<newline>'') (clean_response s) \<and> 500 < length (clean_response s))"
        by (rule clean_response_short_or_one_paragraph)
    qed
  qed
  have only: "contains (lit ''Answer:'') (spec_step1 s)
         \<and> (contains (lit ''Question:'') (py_replace (lit ''Answer:'') [] (spec_step1 s))
            \<or> contains (lit ''Answer:'') (py_replace (lit ''Answer:'') [] (spec_step1 s)))"
    if ne: "clean_response (clean_response s) \<noteq> clean_response s"
  proof -
    from ne iff have "contains (lit ''Question:'') (clean_response s)
        \<or> contains (lit ''Answer:'') (clean_response s)"
      by blast
    then have again: "contains (lit ''Question:'') (py_replace (lit ''Answer:'') [] (spec_step1 s))
        \<or> contains (lit ''Answer:'') (py_replace (lit ''Answer:'') [] (spec_step1 s))"
      unfolding contains_def
      using clean_response_sublist [of s] sublist_order.order.trans by blast
    have "contains (lit ''Answer:'') (spec_step1 s)"
    proof (rule ccontr)
      assume no: "\<not> contains (lit ''Answer:'') (spec_step1 s)"
      then have "py_replace (lit ''Answer:'') [] (spec_step1 s) = spec_step1 s"
        by (simp add: contains_def py_replace_absent)
      with again no spec_step1_no_question [of s] show False by simp
    qed
    with again show ?thesis by simp
  qed
  show ?thesis using iff only by blast
qed

theorem clean_response_idempotent_iff_witness:
  "clean_response (clean_response (lit ''AnsAnswer:wer: at 9am''))
     \<noteq> clean_response (lit ''AnsAnswer:wer: at 9am'')
   \<and> contains (lit ''Answer:'') (spec_step1 (lit ''AnsAnswer:wer: at 9am''))
   \<and> py_replace (lit ''Answer:'') [] (spec_step1 (lit ''AnsAnswer:wer: at 9am''))
       = lit ''Answer: at 9am''"
proof -
  have 1: "clean_response (lit ''AnsAnswer:wer: at 9am'') = lit ''Answer: at 9am''"
    by (simp add: str_eval)
  have 2: "clean_response (lit ''Answer: at 9am'') = lit ''at 9am''"
    by (simp add: str_eval)
  have 3: "lit ''at 9am'' \<noteq> lit ''Answer: at 9am''"
    by (simp add: lit_def)
  have ne: "clean_response (clean_response (lit ''AnsAnswer:wer: at 9am''))
     \<noteq> clean_response (lit ''AnsAnswer:wer: at 9am'')"
    unfolding 1 2 by (rule 3)
  have 4: "py_replace (lit ''Answer:'') [] (spec_step1 (lit ''AnsAnswer:wer: at 9am''))
       = lit ''Answer: at 9am''"
    by (simp add: spec_step1_def str_eval)
  from clean_response_idempotent_iff [of "lit ''AnsAnswer:wer: at 9am''"] ne
  have "contains (lit ''Answer:'') (spec_step1 (lit ''AnsAnswer:wer: at 9am''))"
    by blast
  then show ?thesis using ne 4 by simp
qed

theorem clean_response_idempotent_counterexample:
  "clean_response (lit ''AnsAnswer:wer: at 9am'') = lit ''Answer: at 9am''
   \<and> clean_response (clean_response (lit ''AnsAnswer:wer: at 9am'')) = lit ''at 9am''
   \<and> clean_response (clean_response (lit ''AnsAnswer:wer: at 9am''))
       \<noteq> clean_response (lit ''AnsAnswer:wer: at 9am'')"
proof -
  have 1: "clean_response (lit ''AnsAnswer:wer: at 9am'') = lit ''Answer: at 9am''"
    by (simp add: str_eval)
  have 2: "clean_response (lit ''Answer: at 9am'') = lit ''at 9am''"
    by (simp add: str_eval)
  have 3: "lit ''at 9am'' \<noteq> lit ''Answer: at 9am''"
    by (simp add: lit_def)
  show ?thesis unfolding 1 2 using 3 by simp
qed

section \<open>Streaming and the synchronous response\<close>











end
